theory Spec2Isabelle
  imports Main "HOL-Library.Char_ord" "HOL-Library.List_Lexorder"
begin

section \<open>Python strings\<close>

text \<open>
  The program is a Python class, \<open>ExchangeTaskCreator\<close>; its iCalendar codec works on
  Python \<open>str\<close> values. A string is modelled as a list of 8-bit characters. The model is
  exact for ASCII text: a character above 127 stands for one byte of a UTF-8 encoding and
  is never whitespace and never a digit.
\<close>

datatype error = ValueError | KeyError | IndexError | TypeError | AttributeError

text \<open>\<open>str.isspace\<close> on the ASCII range: tab, LF, VT, FF, CR, the four separators
  0x1C-0x1F and the space.\<close>

definition isspace :: "char \<Rightarrow> bool" where
  "isspace c \<longleftrightarrow>
     c \<in> set [CHR 0x09, CHR 0x0A, CHR 0x0B, CHR 0x0C, CHR 0x0D,
              CHR 0x1C, CHR 0x1D, CHR 0x1E, CHR 0x1F, CHR 0x20]"

definition lstrip :: "string \<Rightarrow> string" where
  "lstrip s = dropWhile isspace s"

definition rstrip :: "string \<Rightarrow> string" where
  "rstrip s = rev (dropWhile isspace (rev s))"

text \<open>\<open>s.strip()\<close>\<close>

definition strip :: "string \<Rightarrow> string" where
  "strip s = rstrip (lstrip s)"

text \<open>\<open>s.startswith(p)\<close>\<close>

fun startswith :: "string \<Rightarrow> string \<Rightarrow> bool" where
  "startswith s [] = True"
| "startswith [] (p # ps) = False"
| "startswith (c # cs) (p # ps) = (c = p \<and> startswith cs ps)"

text \<open>The first occurrence of a separator: the text before it and the text after it.
  Every call site of the program passes a non-empty literal separator.\<close>

fun find_sep :: "string \<Rightarrow> string \<Rightarrow> (string \<times> string) option" where
  "find_sep sep [] = (if sep = [] then Some ([], []) else None)"
| "find_sep sep (c # cs) =
     (if startswith (c # cs) sep then Some ([], drop (length sep) (c # cs))
      else (case find_sep sep cs of
              None \<Rightarrow> None
            | Some (a, b) \<Rightarrow> Some (c # a, b)))"

text \<open>\<open>sep in s\<close>\<close>

definition contains :: "string \<Rightarrow> string \<Rightarrow> bool" where
  "contains sep s \<longleftrightarrow> find_sep sep s \<noteq> None"

text \<open>\<open>s.split(sep)\<close>: all the pieces between the occurrences of the separator, scanned
  from the left without overlap.\<close>

function split :: "string \<Rightarrow> string \<Rightarrow> string list" where
  "split sep s =
     (if sep = [] then [s]
      else (case find_sep sep s of
              None \<Rightarrow> [s]
            | Some (a, b) \<Rightarrow> a # split sep b))"
  by pat_completeness auto
termination
proof (relation "measure (\<lambda>(sep, s). length s)")
  show "wf (measure (\<lambda>(sep, s). length s))" by simp
next
  fix sep s :: string and x2 a b
  assume sep: "sep \<noteq> []" and x2: "find_sep sep s = Some x2" "(a, b) = x2"
  have shorter: "find_sep sep t = Some (u, v) \<Longrightarrow> length v < length t" for t u v
  proof (induction t arbitrary: u)
    case Nil
    with sep show ?case by simp
  next
    case (Cons c cs)
    show ?case
    proof (cases "startswith (c # cs) sep")
      case True
      with Cons.prems sep show ?thesis by (cases sep) auto
    next
      case False
      with Cons.prems obtain u' where "find_sep sep cs = Some (u', v)"
        by (auto split: option.splits)
      from Cons.IH [OF this] show ?thesis by simp
    qed
  qed
  from x2 have "find_sep sep s = Some (a, b)" by simp
  from shorter [OF this] show "((sep, b), sep, s) \<in> measure (\<lambda>(sep, s). length s)" by simp
qed

declare split.simps [simp del]

text \<open>\<open>s.split(sep, 1)\<close>: at most one cut.\<close>

definition split1 :: "string \<Rightarrow> string \<Rightarrow> string list" where
  "split1 sep s = (case find_sep sep s of None \<Rightarrow> [s] | Some (a, b) \<Rightarrow> [a, b])"

text \<open>\<open>xs[i]\<close> for a non-negative index: out of range raises \<open>IndexError\<close>.\<close>

definition index :: "'a list \<Rightarrow> nat \<Rightarrow> error + 'a" where
  "index xs i = (if i < length xs then Inr (xs ! i) else Inl IndexError)"

text \<open>\<open>sep.join(xs)\<close>\<close>

fun join :: "string \<Rightarrow> string list \<Rightarrow> string" where
  "join sep [] = []"
| "join sep [x] = x"
| "join sep (x # y # ys) = x @ sep @ join sep (y # ys)"

text \<open>\<open>s.replace(old, new)\<close> for a non-empty \<open>old\<close>.\<close>

definition replace :: "string \<Rightarrow> string \<Rightarrow> string \<Rightarrow> string" where
  "replace old new s = join new (split old s)"

text \<open>\<open>c.isdigit()\<close> on the ASCII range.\<close>

definition isdigit :: "char \<Rightarrow> bool" where
  "isdigit c \<longleftrightarrow> c \<in> set ''0123456789''"

definition digit_val :: "char \<Rightarrow> nat" where
  "digit_val c = of_char c - 48"

definition digit_char :: "nat \<Rightarrow> char" where
  "digit_char n = char_of (48 + n)"

text \<open>\<open>s.isdigit()\<close>: false on the empty string.\<close>

definition str_isdigit :: "string \<Rightarrow> bool" where
  "str_isdigit s \<longleftrightarrow> s \<noteq> [] \<and> list_all isdigit s"

text \<open>
  \<open>int(s)\<close> on a string: surrounding whitespace is dropped (for ASCII text \<open>int\<close> drops
  space, tab, LF, VT, FF and CR only, a smaller set than \<open>strip\<close>), then an optional
  sign, then decimal digits in which single underscores may separate digits. Anything
  else raises \<open>ValueError\<close>, here \<open>None\<close>.
\<close>

definition int_space :: "char \<Rightarrow> bool" where
  "int_space c \<longleftrightarrow>
     c \<in> set [CHR 0x09, CHR 0x0A, CHR 0x0B, CHR 0x0C, CHR 0x0D, CHR 0x20]"

fun int_digits :: "nat \<Rightarrow> string \<Rightarrow> nat option" where
  "int_digits acc [] = Some acc"
| "int_digits acc [c] = (if isdigit c then Some (10 * acc + digit_val c) else None)"
| "int_digits acc (c # d # ds) =
     (if isdigit c then int_digits (10 * acc + digit_val c) (d # ds)
      else if c = CHR ''_'' \<and> isdigit d then int_digits (10 * acc + digit_val d) ds
      else None)"

fun nat_literal :: "string \<Rightarrow> nat option" where
  "nat_literal [] = None"
| "nat_literal (c # cs) = (if isdigit c then int_digits (digit_val c) cs else None)"

definition py_int :: "string \<Rightarrow> int option" where
  "py_int s =
     (case rev (dropWhile int_space (rev (dropWhile int_space s))) of
        [] \<Rightarrow> None
      | c # cs \<Rightarrow>
          if c = CHR ''-'' then map_option (\<lambda>n. - int n) (nat_literal cs)
          else if c = CHR ''+'' then map_option int (nat_literal cs)
          else map_option int (nat_literal (c # cs)))"

text \<open>\<open>str(n)\<close> for an integer.\<close>

fun str_nat :: "nat \<Rightarrow> string" where
  "str_nat n = (if n < 10 then [digit_char n] else str_nat (n div 10) @ [digit_char (n mod 10)])"

declare str_nat.simps [simp del]

definition str_int :: "int \<Rightarrow> string" where
  "str_int i = (if i < 0 then CHR ''-'' # str_nat (nat (- i)) else str_nat (nat i))"

text \<open>\<open>d.get(key, default)\<close> on a dictionary kept as an association list in insertion
  order, and \<open>d[key] = value\<close>.\<close>

definition dict_get :: "('k \<times> 'v) list \<Rightarrow> 'k \<Rightarrow> 'v \<Rightarrow> 'v" where
  "dict_get d k dflt = (case map_of d k of None \<Rightarrow> dflt | Some v \<Rightarrow> v)"

fun dict_set :: "('k \<times> 'v) list \<Rightarrow> 'k \<Rightarrow> 'v \<Rightarrow> ('k \<times> 'v) list" where
  "dict_set [] k v = [(k, v)]"
| "dict_set (p # ps) k v = (if fst p = k then (k, v) # ps else p # dict_set ps k v)"

section \<open>Vocabulary mappers\<close>

text \<open>\<open>convert_ics_priority\<close>: the \<open>try\<close> body returns inside the three comparisons; a
  value above 9 and a \<open>ValueError\<close> of \<open>int\<close> both fall through to \<open>return "None"\<close>.\<close>

definition convert_ics_priority :: "string \<Rightarrow> string" where
  "convert_ics_priority priority_str =
     (case py_int priority_str of
        None \<Rightarrow> ''None''
      | Some priority \<Rightarrow>
          if priority \<le> 3 then ''High''
          else if priority \<le> 6 then ''Medium''
          else if priority \<le> 9 then ''Low''
          else ''None'')"

definition get_ics_priority :: "string \<Rightarrow> string" where
  "get_ics_priority priority =
     dict_get [(''High'', ''1''), (''Medium'', ''5''), (''Low'', ''9''), (''None'', ''0'')]
       priority ''0''"

definition convert_ics_status :: "string \<Rightarrow> string" where
  "convert_ics_status status_str =
     dict_get [(''NEEDS-ACTION'', ''Not Started''), (''IN-PROCESS'', ''In Progress''),
               (''COMPLETED'', ''Completed''), (''CANCELLED'', ''Deferred'')]
       status_str ''Not Started''"

definition get_ics_status :: "string \<Rightarrow> string" where
  "get_ics_status status =
     dict_get [(''Not Started'', ''NEEDS-ACTION''), (''In Progress'', ''IN-PROCESS''),
               (''Completed'', ''COMPLETED''), (''Waiting'', ''NEEDS-ACTION''),
               (''Deferred'', ''CANCELLED'')]
       status ''NEEDS-ACTION''"

text \<open>
  \<open>convert_ics_date\<close>. The body of the \<open>try\<close> is \<open>convert_ics_date_body\<close>: it returns
  \<open>Inl\<close> where the Python would raise and \<open>Inr None\<close> where it reaches the end of the
  \<open>try\<close> without returning. The bare \<open>except: pass\<close> and the final \<open>return ""\<close> are in
  \<open>convert_ics_date\<close>.
\<close>

definition convert_ics_date_body :: "string \<Rightarrow> error + string option" where
  "convert_ics_date_body date_str0 =
     (case (if contains ''VALUE=DATE:'' date_str0
            then index (split ''VALUE=DATE:'' date_str0) 1
            else if contains '':'' date_str0
            then index (split '':'' date_str0) 1
            else Inr date_str0) of
        Inl e \<Rightarrow> Inl e
      | Inr date_str1 \<Rightarrow>
          (case (if contains ''T'' date_str1
                 then index (split ''T'' date_str1) 0
                 else Inr date_str1) of
             Inl e \<Rightarrow> Inl e
           | Inr date_str \<Rightarrow>
               if length date_str = 8 \<and> str_isdigit date_str
               then Inr (Some (take 4 date_str @ ''-'' @ take 2 (drop 4 date_str)
                               @ ''-'' @ take 2 (drop 6 date_str)))
               else Inr None))"

definition convert_ics_date :: "string \<Rightarrow> string" where
  "convert_ics_date date_str =
     (if date_str = [] then ''''
      else (case convert_ics_date_body date_str of
              Inr (Some r) \<Rightarrow> r
            | _ \<Rightarrow> ''''))"

section \<open>Python values\<close>

text \<open>
  A task is a Python dictionary with string keys. Its values are \<open>None\<close>, booleans,
  integers, strings and, under \<open>repeat_settings\<close>, a dictionary again. Floats and lists,
  which only a hand-edited JSON store could hold, are not modelled.
\<close>

datatype pyval = PNone | PBool bool | PInt int | PStr string | PDict "(string \<times> pyval) list"

type_synonym pydict = "(string \<times> pyval) list"

text \<open>Truth value of an object in a condition.\<close>

fun truthy :: "pyval \<Rightarrow> bool" where
  "truthy PNone = False"
| "truthy (PBool b) = b"
| "truthy (PInt i) = (i \<noteq> 0)"
| "truthy (PStr s) = (s \<noteq> [])"
| "truthy (PDict d) = (d \<noteq> [])"

text \<open>\<open>d.get(key)\<close> with the default \<open>None\<close>, and \<open>d[key]\<close>, which raises on a missing
  key.\<close>

definition get_none :: "pydict \<Rightarrow> string \<Rightarrow> pyval" where
  "get_none d k = dict_get d k PNone"

definition subscript :: "pydict \<Rightarrow> string \<Rightarrow> error + pyval" where
  "subscript d k = (case map_of d k of None \<Rightarrow> Inl KeyError | Some v \<Rightarrow> Inr v)"

section \<open>Formatting values\<close>

text \<open>
  \<open>repr\<close> of a string of ASCII characters: single quotes unless the string holds a
  single quote and no double quote; the quote and the backslash are escaped, tab, LF and
  CR are written \<open>\t\<close>, \<open>\n\<close>, \<open>\r\<close> and the other control characters \<open>\xhh\<close>.
\<close>

definition hex_digit :: "nat \<Rightarrow> char" where
  "hex_digit n = ''0123456789abcdef'' ! (n mod 16)"

definition repr_char :: "char \<Rightarrow> char \<Rightarrow> string" where
  "repr_char quote c =
     (if c = quote \<or> c = CHR 0x5C then [CHR 0x5C, c]
      else if c = CHR 0x09 then [CHR 0x5C, CHR ''t'']
      else if c = CHR 0x0A then [CHR 0x5C, CHR ''n'']
      else if c = CHR 0x0D then [CHR 0x5C, CHR ''r'']
      else if (of_char c :: nat) < 32 \<or> c = CHR 0x7F
      then [CHR 0x5C, CHR ''x'', hex_digit (of_char c div 16), hex_digit (of_char c)]
      else [c])"

definition repr_str :: "string \<Rightarrow> string" where
  "repr_str s =
     (let quote = (if CHR 0x27 \<in> set s \<and> CHR 0x22 \<notin> set s then CHR 0x22 else CHR 0x27)
      in [quote] @ concat (map (repr_char quote) s) @ [quote])"

text \<open>\<open>repr(v)\<close> and \<open>str(v)\<close>, which is what an f-string writes for \<open>{v}\<close>. They differ
  on strings only.\<close>

fun py_repr :: "pyval \<Rightarrow> string"
  and repr_entries :: "(string \<times> pyval) list \<Rightarrow> string list" where
  "py_repr PNone = ''None''"
| "py_repr (PBool b) = (if b then ''True'' else ''False'')"
| "py_repr (PInt i) = str_int i"
| "py_repr (PStr s) = repr_str s"
| "py_repr (PDict d) = ''{'' @ join '', '' (repr_entries d) @ ''}''"
| "repr_entries [] = []"
| "repr_entries ((k, v) # rest) = (repr_str k @ '': '' @ py_repr v) # repr_entries rest"

definition py_str :: "pyval \<Rightarrow> string" where
  "py_str v = (case v of PStr s \<Rightarrow> s | _ \<Rightarrow> py_repr v)"

text \<open>\<open>v.replace(old, new)\<close> on an object: only a string has the method.\<close>

definition val_replace :: "string \<Rightarrow> string \<Rightarrow> pyval \<Rightarrow> error + string" where
  "val_replace old new v = (case v of PStr s \<Rightarrow> Inr (replace old new s) | _ \<Rightarrow> Inl AttributeError)"

text \<open>\<open>table.get(v, default)\<close> for a table with string keys: a dictionary is not hashable,
  any other object that is not a string is simply not a key.\<close>

definition table_get :: "(string \<times> 'a) list \<Rightarrow> pyval \<Rightarrow> error + 'a option" where
  "table_get table v =
     (case v of PStr s \<Rightarrow> Inr (map_of table s) | PDict d \<Rightarrow> Inl TypeError | _ \<Rightarrow> Inr None)"

section \<open>Dates\<close>

text \<open>A calendar date, as far as the program uses \<open>datetime\<close> objects.\<close>

record date =
  year :: nat
  month :: nat
  day :: nat

definition is_leap :: "nat \<Rightarrow> bool" where
  "is_leap y \<longleftrightarrow> (y mod 4 = 0 \<and> y mod 100 \<noteq> 0) \<or> y mod 400 = 0"

definition days_in_month :: "nat \<Rightarrow> nat \<Rightarrow> nat" where
  "days_in_month y m =
     (if m = 2 then (if is_leap y then 29 else 28)
      else if m \<in> set [4, 6, 9, 11] then 30 else 31)"

text \<open>The constructor \<open>datetime(y, m, d)\<close> raises \<open>ValueError\<close> outside the calendar.\<close>

definition make_date :: "nat \<Rightarrow> nat \<Rightarrow> nat \<Rightarrow> date option" where
  "make_date y m d =
     (if 1 \<le> y \<and> y \<le> 9999 \<and> 1 \<le> m \<and> m \<le> 12 \<and> 1 \<le> d \<and> d \<le> days_in_month y m
      then Some \<lparr>year = y, month = m, day = d\<rparr> else None)"

text \<open>
  \<open>datetime.strptime\<close> compiles a format into a regular expression, matches it at the
  start of the text and rejects text left over. The pieces, each returning the value
  and the rest of the text: \<open>%Y\<close> is four digits; \<open>%m\<close> is \<open>1[0-2]|0[1-9]|[1-9]\<close>;
  \<open>%d\<close> is \<open>3[01]|[12]\d|0[1-9]|[1-9]| [1-9]\<close>. In both formats of the program the
  piece after a month or day number is a literal character, so the alternatives are
  tried in order until one is followed by that character.
\<close>

definition two_digits :: "char \<Rightarrow> char \<Rightarrow> nat" where
  "two_digits a b = 10 * digit_val a + digit_val b"

definition re_year :: "string \<Rightarrow> (nat \<times> string) option" where
  "re_year s =
     (case s of
        a # b # c # d # rest \<Rightarrow>
          if isdigit a \<and> isdigit b \<and> isdigit c \<and> isdigit d
          then Some (1000 * digit_val a + 100 * digit_val b + 10 * digit_val c + digit_val d, rest)
          else None
      | _ \<Rightarrow> None)"

definition nonzero_digit :: "char \<Rightarrow> bool" where
  "nonzero_digit c \<longleftrightarrow> c \<in> set ''123456789''"

text \<open>\<open>%m\<close> followed by the literal \<open>lit\<close>.\<close>

definition re_month_then :: "char \<Rightarrow> string \<Rightarrow> (nat \<times> string) option" where
  "re_month_then lit s =
     (case s of
        a # b # c # rest \<Rightarrow>
          if ((a = CHR ''1'' \<and> b \<in> set ''012'') \<or> (a = CHR ''0'' \<and> nonzero_digit b)) \<and> c = lit
          then Some (two_digits a b, rest)
          else if nonzero_digit a \<and> b = lit then Some (digit_val a, c # rest)
          else None
      | [a, b] \<Rightarrow> if nonzero_digit a \<and> b = lit then Some (digit_val a, []) else None
      | _ \<Rightarrow> None)"

text \<open>\<open>%d\<close> at the end of the format: the first alternative that matches.\<close>

definition re_day :: "string \<Rightarrow> (nat \<times> string) option" where
  "re_day s =
     (case s of
        a # b # rest \<Rightarrow>
          if (a = CHR ''3'' \<and> b \<in> set ''01'') \<or> (a \<in> set ''12'' \<and> isdigit b)
             \<or> (a = CHR ''0'' \<and> nonzero_digit b)
          then Some (two_digits a b, rest)
          else if nonzero_digit a then Some (digit_val a, b # rest)
          else if a = CHR 0x20 \<and> nonzero_digit b then Some (digit_val b, rest)
          else None
      | [a] \<Rightarrow> if nonzero_digit a then Some (digit_val a, []) else None
      | [] \<Rightarrow> None)"

text \<open>\<open>%d\<close> followed by the literal \<open>lit\<close>.\<close>

definition re_day_then :: "char \<Rightarrow> string \<Rightarrow> (nat \<times> string) option" where
  "re_day_then lit s =
     (case s of
        a # b # c # rest \<Rightarrow>
          if ((a = CHR ''3'' \<and> b \<in> set ''01'') \<or> (a \<in> set ''12'' \<and> isdigit b)
              \<or> (a = CHR ''0'' \<and> nonzero_digit b)) \<and> c = lit
          then Some (two_digits a b, rest)
          else if nonzero_digit a \<and> b = lit then Some (digit_val a, c # rest)
          else if a = CHR 0x20 \<and> nonzero_digit b \<and> c = lit then Some (digit_val b, rest)
          else None
      | [a, b] \<Rightarrow> if nonzero_digit a \<and> b = lit then Some (digit_val a, []) else None
      | _ \<Rightarrow> None)"

text \<open>\<open>datetime.strptime(s, "%Y-%m-%d")\<close>; \<open>None\<close> is \<open>ValueError\<close>.\<close>

definition strptime_ymd :: "string \<Rightarrow> date option" where
  "strptime_ymd s =
     (case re_year s of
        Some (y, c # r1) \<Rightarrow>
          if c = CHR ''-'' then
            (case re_month_then CHR ''-'' r1 of
               Some (m, r2) \<Rightarrow>
                 (case re_day r2 of
                    Some (d, []) \<Rightarrow> make_date y m d
                  | _ \<Rightarrow> None)
             | None \<Rightarrow> None)
          else None
      | _ \<Rightarrow> None)"

text \<open>Two-digit fields of \<open>strftime\<close>. The year field \<open>%Y\<close> is written without padding,
  as the C library of Linux does for years below 1000.\<close>

definition pad2 :: "nat \<Rightarrow> string" where
  "pad2 n = (if n < 10 then CHR ''0'' # str_nat n else str_nat n)"

text \<open>\<open>d.strftime("%Y%m%d")\<close> and \<open>d.strftime("%Y-%m-%d")\<close>\<close>

definition strftime_compact :: "date \<Rightarrow> string" where
  "strftime_compact d = str_nat (year d) @ pad2 (month d) @ pad2 (day d)"

definition strftime_iso :: "date \<Rightarrow> string" where
  "strftime_iso d = str_nat (year d) @ ''-'' @ pad2 (month d) @ ''-'' @ pad2 (day d)"

section \<open>The recurrence rule\<close>

definition frequency_map :: "(string \<times> string) list" where
  "frequency_map = [(''Daily'', ''DAILY''), (''Weekly'', ''WEEKLY''),
                    (''Monthly'', ''MONTHLY''), (''Yearly'', ''YEARLY'')]"

text \<open>The \<open>try\<close> around the end date: a value that is not a string (\<open>TypeError\<close>) or does
  not parse (\<open>ValueError\<close>) adds nothing.\<close>

definition until_part :: "pyval \<Rightarrow> string list" where
  "until_part end_date =
     (case end_date of
        PStr e \<Rightarrow>
          (case strptime_ymd e of
             Some d \<Rightarrow> [''UNTIL='' @ strftime_compact d @ ''T235959Z'']
           | None \<Rightarrow> [])
      | _ \<Rightarrow> [])"

text \<open>
  \<open>generate_rrule\<close>. The argument is any object; \<open>.get\<close> on an object that is not a
  dictionary raises \<open>AttributeError\<close>, and \<open>repeat_settings['frequency']\<close> raises
  \<open>KeyError\<close> when the key is missing. \<open>Inr None\<close> is the return value \<open>None\<close>.
\<close>

definition generate_rrule :: "pyval \<Rightarrow> error + string option" where
  "generate_rrule repeat_settings =
     (if \<not> truthy repeat_settings then Inr None
      else (case repeat_settings of
        PDict rs \<Rightarrow>
          if get_none rs ''frequency'' = PStr ''None'' then Inr None
          else (case subscript rs ''frequency'' of
                  Inl e \<Rightarrow> Inl e
                | Inr fv \<Rightarrow>
                    (case table_get frequency_map fv of
                       Inl e \<Rightarrow> Inl e
                     | Inr None \<Rightarrow> Inr None
                     | Inr (Some freq) \<Rightarrow>
                         if freq = [] then Inr None
                         else
                           (let rrule_parts = [''FREQ='' @ freq];
                                end_type = dict_get rs ''end_type'' (PStr ''Never'')
                            in if end_type = PStr ''After X occurrences''
                                  \<and> truthy (get_none rs ''count'')
                               then (case subscript rs ''count'' of
                                       Inl e \<Rightarrow> Inl e
                                     | Inr c \<Rightarrow>
                                         Inr (Some (join '';''
                                           (rrule_parts @ [''COUNT='' @ py_str c]))))
                               else if end_type = PStr ''Until date''
                                  \<and> truthy (get_none rs ''end_date'')
                               then (case subscript rs ''end_date'' of
                                       Inl e \<Rightarrow> Inr (Some (join '';'' rrule_parts))
                                     | Inr ed \<Rightarrow>
                                         Inr (Some (join '';'' (rrule_parts @ until_part ed))))
                               else Inr (Some (join '';'' rrule_parts)))))
      | _ \<Rightarrow> Inl AttributeError))"

section \<open>The ICS block parser and importer\<close>

type_synonym block = "(string \<times> string) list"

text \<open>The local variables of the parsing loop of \<open>import_from_ics\<close>.\<close>

record parser =
  items :: "block list"
  current_item :: block
  in_item :: bool
  item_type :: "string option"

text \<open>
  One iteration of \<open>for line in content.split('\n')\<close>. The accumulated dictionary is
  appended to \<open>items\<close> by reference; it is never written to after that (a write needs
  \<open>in_item\<close>, which END clears, and BEGIN binds a fresh dictionary), so appending its
  value is the same. The unpacking \<open>key, value = line.split(':', 1)\<close> raises
  \<open>ValueError\<close> unless the split has two parts.
\<close>

definition parse_line :: "parser \<Rightarrow> string \<Rightarrow> error + parser" where
  "parse_line st raw =
     (let line = strip raw in
      if line = ''BEGIN:VTODO'' then
        Inr (st\<lparr>in_item := True, item_type := Some ''VTODO'',
                 current_item := [(''type'', ''VTODO'')]\<rparr>)
      else if line = ''BEGIN:VEVENT'' then
        Inr (st\<lparr>in_item := True, item_type := Some ''VEVENT'',
                 current_item := [(''type'', ''VEVENT'')]\<rparr>)
      else if line \<in> set [''END:VTODO'', ''END:VEVENT''] then
        Inr (st\<lparr>items := (if current_item st \<noteq> [] then items st @ [current_item st]
                           else items st),
                 in_item := False, item_type := None\<rparr>)
      else if in_item st \<and> contains '':'' line then
        (if startswith line '' '' \<or> startswith line [CHR 0x09] then Inr st
         else (case split1 '':'' line of
                 [key0, value] \<Rightarrow>
                   (case (if contains '';'' key0 then index (split '';'' key0) 0
                          else Inr key0) of
                      Inl e \<Rightarrow> Inl e
                    | Inr key \<Rightarrow>
                        Inr (st\<lparr>current_item := dict_set (current_item st) key value\<rparr>))
               | _ \<Rightarrow> Inl ValueError))
      else Inr st)"

fun parse_lines :: "parser \<Rightarrow> string list \<Rightarrow> error + parser" where
  "parse_lines st [] = Inr st"
| "parse_lines st (l # ls) =
     (case parse_line st l of Inl e \<Rightarrow> Inl e | Inr st' \<Rightarrow> parse_lines st' ls)"

definition parse_ics :: "string \<Rightarrow> error + block list" where
  "parse_ics content =
     (case parse_lines \<lparr>items = [], current_item = [], in_item = False, item_type = None\<rparr>
             (split [CHR 0x0A] content) of
        Inl e \<Rightarrow> Inl e
      | Inr st \<Rightarrow> Inr (items st))"

text \<open>Reading a file opened in text mode translates CR LF and a lone CR to LF.\<close>

fun universal_newlines :: "string \<Rightarrow> string" where
  "universal_newlines [] = []"
| "universal_newlines [c] = (if c = CHR 0x0D then [CHR 0x0A] else [c])"
| "universal_newlines (c # d # ds) =
     (if c = CHR 0x0D \<and> d = CHR 0x0A then CHR 0x0A # universal_newlines ds
      else if c = CHR 0x0D then CHR 0x0A # universal_newlines (d # ds)
      else c # universal_newlines (d # ds))"

text \<open>The calendar emoji (U+1F4C5, here its four UTF-8 bytes) and a space, which mark a
  task made from a VEVENT.\<close>

definition event_mark :: string where
  "event_mark = [CHR 0xF0, CHR 0x9F, CHR 0x93, CHR 0x85, CHR 0x20]"

text \<open>
  The dictionary literal built for one parsed block. \<open>n\<close> is \<open>len(self.tasks)\<close> and
  \<open>now\<close> the formatted reading of the clock. The only expression of the literal that can
  raise is \<open>int(item.get('PERCENT-COMPLETE', '0'))\<close>.
\<close>

definition task_of_item :: "nat \<Rightarrow> string \<Rightarrow> block \<Rightarrow> error + pydict" where
  "task_of_item n now item =
     (let subject0 = dict_get item ''SUMMARY'' ''Imported Task'';
          subject = (if map_of item ''type'' = Some ''VEVENT'' then event_mark @ subject0
                     else subject0);
          due = dict_get item ''DUE'' ''''
      in case py_int (dict_get item ''PERCENT-COMPLETE'' ''0'') of
           None \<Rightarrow> Inl ValueError
         | Some progress \<Rightarrow>
             Inr [(''id'', PInt (int n + 1)),
                  (''subject'', PStr subject),
                  (''priority'', PStr (convert_ics_priority (dict_get item ''PRIORITY'' ''0''))),
                  (''status'', PStr (convert_ics_status (dict_get item ''STATUS'' ''NEEDS-ACTION''))),
                  (''progress'', PInt progress),
                  (''start_date'', PStr (convert_ics_date (dict_get item ''DTSTART'' ''''))),
                  (''due_date'', PStr (convert_ics_date
                      (if due \<noteq> [] then due else dict_get item ''DTEND'' ''''))),
                  (''due_date_type'', PStr ''Custom''),
                  (''reminder'', PBool False),
                  (''reminder_date'', PStr ''''),
                  (''reminder_time'', PStr ''''),
                  (''repeat_settings'', PNone),
                  (''category'', PStr (dict_get item ''CATEGORIES'' '''')),
                  (''owner'', PStr (if dict_get item ''ORGANIZER'' '''' \<noteq> []
                      then replace ''mailto:'' '''' (dict_get item ''ORGANIZER'' '''') else '''')),
                  (''location'', PStr (dict_get item ''LOCATION'' '''')),
                  (''description'', PStr
                      (replace [CHR 0x5C, CHR '';''] '';''
                        (replace [CHR 0x5C, CHR '',''] '',''
                          (replace [CHR 0x5C, CHR ''n''] [CHR 0x0A]
                            (dict_get item ''DESCRIPTION'' ''''))))),
                  (''created_date'', PStr now)])"

section \<open>The application state\<close>

text \<open>The variables of the task form.\<close>

record form =
  subject_var :: string
  project_var :: string
  priority_var :: string
  status_var :: string
  progress_var :: int
  start_date_var :: string
  custom_start_date_var :: string
  due_date_var :: string
  custom_due_date_var :: string
  reminder_var :: bool
  reminder_date_var :: string
  reminder_hour_var :: string
  reminder_minute_var :: string
  repeat_frequency_var :: string
  repeat_end_var :: string
  repeat_count_var :: string
  repeat_end_date_var :: string
  category_var :: string
  owner_var :: string
  location_var :: string
  description_text :: string

text \<open>
  The attributes of \<open>ExchangeTaskCreator\<close> and the files it keeps. Task dictionaries
  are objects: \<open>heap\<close> holds them by address, \<open>tasks\<close> and \<open>editing_task\<close> hold
  addresses, so that the task being edited is shared with the task list as in the
  program. \<open>files\<close> are the text files by path; the four JSON stores hold the value
  last dumped to them. \<open>dialogs\<close> are the message boxes shown, title and text.
  Writing a file is taken to succeed.
\<close>

record app =
  heap :: "pydict list"
  tasks :: "nat list"
  editing_task :: "nat option"
  categories :: "string list"
  projects :: "string list"
  locations :: "string list"
  task_list_visible :: bool
  start_options :: "(string \<times> date option) list"
  due_options :: "(string \<times> date option) list"
  form :: form
  files :: "(string \<times> string) list"
  tasks_json :: "pydict list option"
  categories_json :: "string list option"
  projects_json :: "string list option"
  locations_json :: "string list option"
  dialogs :: "(string \<times> string) list"

text \<open>\<open>self.tasks.append(task)\<close> for a freshly built dictionary.\<close>

definition append_task :: "pydict \<Rightarrow> app \<Rightarrow> app" where
  "append_task task st = st\<lparr>heap := heap st @ [task], tasks := tasks st @ [length (heap st)]\<rparr>"

text \<open>
  The conversion loop of \<open>import_from_ics\<close>. \<open>now k\<close> is the clock reading, formatted,
  at the \<open>k\<close>-th item. An exception leaves the loop with the tasks appended so far.
\<close>

fun convert_items :: "(nat \<Rightarrow> string) \<Rightarrow> nat \<Rightarrow> app \<Rightarrow> block list \<Rightarrow> app \<times> (error + nat)" where
  "convert_items now imported_count st [] = (st, Inr imported_count)"
| "convert_items now imported_count st (item # rest) =
     (case task_of_item (length (tasks st)) (now imported_count) item of
        Inl e \<Rightarrow> (st, Inl e)
      | Inr task \<Rightarrow> convert_items now (imported_count + 1) (append_task task st) rest)"

text \<open>
  \<open>import_from_ics\<close>: the whole body is inside \<open>try\<close>, and any exception (a missing
  file, a line or a field that raises) makes it return \<open>False\<close>.
\<close>

definition import_from_ics :: "(nat \<Rightarrow> string) \<Rightarrow> string \<Rightarrow> app \<Rightarrow> app \<times> bool" where
  "import_from_ics now file_path st =
     (case map_of (files st) file_path of
        None \<Rightarrow> (st, False)
      | Some raw \<Rightarrow>
          (case parse_ics (universal_newlines raw) of
             Inl e \<Rightarrow> (st, False)
           | Inr its \<Rightarrow>
               (case convert_items now 0 st its of
                  (st', Inl e) \<Rightarrow> (st', False)
                | (st', Inr imported_count) \<Rightarrow> (st', imported_count > 0))))"

section \<open>The ICS block writer\<close>

text \<open>Sequencing of steps that may raise.\<close>

definition and_then :: "error + 'a \<Rightarrow> ('a \<Rightarrow> error + 'b) \<Rightarrow> error + 'b" where
  "and_then m f = (case m of Inl e \<Rightarrow> Inl e | Inr x \<Rightarrow> f x)"

text \<open>\<open>format_task_name_with_project\<close> returns the subject object itself when there is no
  project.\<close>

definition format_task_name_with_project :: "pyval \<Rightarrow> pyval \<Rightarrow> pyval" where
  "format_task_name_with_project task_subject project =
     (if truthy project \<and> project \<noteq> PStr ''None''
      then PStr (''['' @ py_str project @ ''] '' @ py_str task_subject)
      else task_subject)"

text \<open>The two writer-side mappers applied to a value of a task: the lookup in their table
  raises \<open>TypeError\<close> on a dictionary and takes the default on any other object that is
  not a string.\<close>

definition get_ics_priority_val :: "pyval \<Rightarrow> error + string" where
  "get_ics_priority_val v =
     (case v of PStr s \<Rightarrow> Inr (get_ics_priority s) | PDict d \<Rightarrow> Inl TypeError | _ \<Rightarrow> Inr ''0'')"

definition get_ics_status_val :: "pyval \<Rightarrow> error + string" where
  "get_ics_status_val v =
     (case v of PStr s \<Rightarrow> Inr (get_ics_status s) | PDict d \<Rightarrow> Inl TypeError
      | _ \<Rightarrow> Inr ''NEEDS-ACTION'')"

text \<open>
  The hour and minute of the reminder: midnight unless \<open>reminder_time\<close> is set, else
  \<open>int\<close> of the first two pieces between colons, which \<open>datetime.replace\<close> accepts only
  within 0-23 and 0-59.
\<close>

definition reminder_clock :: "pyval \<Rightarrow> error + nat \<times> nat" where
  "reminder_clock reminder_time =
     (if truthy reminder_time then
        (case reminder_time of
           PStr t \<Rightarrow>
             (let time_parts = split '':'' t
              in and_then (index time_parts 0) (\<lambda>h.
                 case py_int h of
                   None \<Rightarrow> Inl ValueError
                 | Some hour \<Rightarrow>
                     and_then (index time_parts 1) (\<lambda>m.
                       case py_int m of
                         None \<Rightarrow> Inl ValueError
                       | Some minute \<Rightarrow>
                           if 0 \<le> hour \<and> hour \<le> 23 \<and> 0 \<le> minute \<and> minute \<le> 59
                           then Inr (nat hour, nat minute)
                           else Inl ValueError)))
         | _ \<Rightarrow> Inl AttributeError)
      else Inr (0, 0))"

text \<open>
  The body of the \<open>try\<close> that writes the alarm, as the lines it has appended when it ends
  or when an exception leaves it. The four alarm lines are appended together; an
  exception of \<open>generate_rrule\<close> after that leaves them without END:VALARM.
\<close>

definition reminder_lines :: "pydict \<Rightarrow> string list" where
  "reminder_lines task =
     (case subscript task ''reminder_date'' of
        Inr (PStr rd) \<Rightarrow>
          (case strptime_ymd rd of
             None \<Rightarrow> []
           | Some d \<Rightarrow>
               (case reminder_clock (get_none task ''reminder_time'') of
                  Inl e \<Rightarrow> []
                | Inr (hour, minute) \<Rightarrow>
                    (case subscript task ''subject'' of
                       Inl e \<Rightarrow> []
                     | Inr subject \<Rightarrow>
                         (let reminder_str = strftime_compact d @ ''T'' @ pad2 hour
                                               @ pad2 minute @ ''00Z'';
                              alarm = [''BEGIN:VALARM'', ''ACTION:DISPLAY'',
                                       ''DESCRIPTION:Reminder: '' @ py_str subject,
                                       ''TRIGGER;VALUE=DATE-TIME:'' @ reminder_str]
                          in if truthy (get_none task ''repeat_settings'') then
                               (case and_then (subscript task ''repeat_settings'') generate_rrule of
                                  Inl e \<Rightarrow> alarm
                                | Inr None \<Rightarrow> alarm @ [''END:VALARM'']
                                | Inr (Some repeat_rule) \<Rightarrow>
                                    if repeat_rule \<noteq> []
                                    then alarm @ [''RRULE:'' @ repeat_rule, ''END:VALARM'']
                                    else alarm @ [''END:VALARM''])
                             else alarm @ [''END:VALARM'']))))
      | _ \<Rightarrow> [])"

text \<open>A date line: written only for a true value, whose dashes are removed.\<close>

definition date_line :: "string \<Rightarrow> pyval \<Rightarrow> error + string list" where
  "date_line name v =
     (if truthy v then and_then (val_replace ''-'' [] v) (\<lambda>d. Inr [name @ '';VALUE=DATE:'' @ d])
      else Inr [])"

definition text_line :: "string \<Rightarrow> pyval \<Rightarrow> string list" where
  "text_line name v = (if truthy v then [name @ '':'' @ py_str v] else [])"

definition description_line :: "pyval \<Rightarrow> error + string list" where
  "description_line v =
     (if truthy v then
        and_then (val_replace [CHR 0x0A] [CHR 0x5C, CHR ''n''] v) (\<lambda>d.
          Inr [''DESCRIPTION:'' @ replace '';'' [CHR 0x5C, CHR '';'']
                                    (replace '','' [CHR 0x5C, CHR '',''] d)])
      else Inr [])"

text \<open>
  One iteration of the loop of \<open>generate_ics_file\<close>: the lines of one VTODO. \<open>uid\<close> is
  the text of the random UUID and \<open>stamp\<close> the formatted clock reading.
\<close>

definition task_lines :: "string \<Rightarrow> string \<Rightarrow> pydict \<Rightarrow> error + string list" where
  "task_lines uid stamp task =
     and_then (subscript task ''subject'') (\<lambda>subject.
     let task_display_name =
           format_task_name_with_project subject (dict_get task ''project'' (PStr []))
     in and_then (and_then (subscript task ''priority'') get_ics_priority_val) (\<lambda>priority.
        and_then (and_then (subscript task ''status'') get_ics_status_val) (\<lambda>status.
        and_then (subscript task ''progress'') (\<lambda>progress.
        and_then (date_line ''DTSTART'' (get_none task ''start_date'')) (\<lambda>start.
        and_then (date_line ''DUE'' (get_none task ''due_date'')) (\<lambda>due.
        and_then (description_line (get_none task ''description'')) (\<lambda>description.
          Inr ([''BEGIN:VTODO'',
                ''UID:'' @ uid,
                ''SUMMARY:'' @ py_str task_display_name,
                ''PRIORITY:'' @ priority,
                ''STATUS:'' @ status,
                ''PERCENT-COMPLETE:'' @ py_str progress,
                ''DTSTAMP:'' @ stamp]
               @ start @ due
               @ (if truthy (get_none task ''reminder'') \<and> truthy (get_none task ''reminder_date'')
                  then reminder_lines task else [])
               @ text_line ''CATEGORIES'' (get_none task ''category'')
               @ text_line ''LOCATION'' (get_none task ''location'')
               @ description
               @ [''END:VTODO'']))))))))"

fun ics_tasks :: "(nat \<Rightarrow> string) \<Rightarrow> (nat \<Rightarrow> string) \<Rightarrow> nat \<Rightarrow> pydict list \<Rightarrow> error + string list" where
  "ics_tasks uid stamp k [] = Inr []"
| "ics_tasks uid stamp k (task # rest) =
     and_then (task_lines (uid k) (stamp k) task) (\<lambda>ls.
     and_then (ics_tasks uid stamp (Suc k) rest) (\<lambda>more. Inr (ls @ more)))"

text \<open>\<open>generate_ics_file\<close>: nothing is written when a task raises.\<close>

definition generate_ics_file ::
  "(nat \<Rightarrow> string) \<Rightarrow> (nat \<Rightarrow> string) \<Rightarrow> pydict list \<Rightarrow> string \<Rightarrow> app \<Rightarrow> error + app" where
  "generate_ics_file uid stamp task_list filename st =
     and_then (ics_tasks uid stamp 0 task_list) (\<lambda>body.
       Inr (st\<lparr>files := dict_set (files st) filename
                 (join [CHR 0x0A]
                    ([''BEGIN:VCALENDAR'', ''VERSION:2.0'',
                      ''PRODID:-//Exchange Task Creator//Enhanced//EN'']
                     @ body @ [''END:VCALENDAR'']))\<rparr>))"

section \<open>The task form\<close>

text \<open>\<open>s.zfill(2)\<close>: zeros go after a leading sign.\<close>

definition zfill2 :: "string \<Rightarrow> string" where
  "zfill2 s =
     (case s of
        [] \<Rightarrow> ''00''
      | [c] \<Rightarrow> if c = CHR ''+'' \<or> c = CHR ''-'' then [c, CHR ''0''] else [CHR ''0'', c]
      | _ \<Rightarrow> s)"

definition to_lower :: "char \<Rightarrow> char" where
  "to_lower c = (if c \<in> set ''ABCDEFGHIJKLMNOPQRSTUVWXYZ'' then char_of (of_char c + (32::nat)) else c)"

definition month_abbr :: "(string \<times> nat) list" where
  "month_abbr = [(''jan'', 1), (''feb'', 2), (''mar'', 3), (''apr'', 4), (''may'', 5),
                 (''jun'', 6), (''jul'', 7), (''aug'', 8), (''sep'', 9), (''oct'', 10),
                 (''nov'', 11), (''dec'', 12)]"

text \<open>\<open>%b\<close>: a month abbreviation of the C locale, in any case.\<close>

definition re_month_name :: "string \<Rightarrow> (nat \<times> string) option" where
  "re_month_name s =
     (case s of
        a # b # c # rest \<Rightarrow>
          (case map_of month_abbr (map to_lower [a, b, c]) of
             Some m \<Rightarrow> Some (m, rest)
           | None \<Rightarrow> None)
      | _ \<Rightarrow> None)"

text \<open>A space in a format stands for \<open>\s+\<close>: one or more whitespace characters.\<close>

definition re_spaces :: "string \<Rightarrow> string option" where
  "re_spaces s = (case s of c # cs \<Rightarrow> if isspace c then Some (dropWhile isspace cs) else None
                  | [] \<Rightarrow> None)"

text \<open>\<open>datetime.strptime(s, "%b %d, %Y")\<close>; \<open>None\<close> is \<open>ValueError\<close>.\<close>

definition strptime_bdy :: "string \<Rightarrow> date option" where
  "strptime_bdy s =
     (case re_month_name s of
        Some (m, r1) \<Rightarrow>
          (case re_spaces r1 of
             Some r2 \<Rightarrow>
               (case re_day_then CHR '','' r2 of
                  Some (d, r3) \<Rightarrow>
                    (case re_spaces r3 of
                       Some r4 \<Rightarrow>
                         (case re_year r4 of
                            Some (y, []) \<Rightarrow> make_date y m d
                          | _ \<Rightarrow> None)
                     | None \<Rightarrow> None)
                | None \<Rightarrow> None)
           | None \<Rightarrow> None)
      | None \<Rightarrow> None)"

definition convert_display_to_iso :: "string \<Rightarrow> string" where
  "convert_display_to_iso display_date =
     (case strptime_bdy display_date of Some d \<Rightarrow> strftime_iso d | None \<Rightarrow> [])"

text \<open>\<open>get_actual_start_date\<close> and \<open>get_actual_due_date\<close>: the same code over the two
  selections and their option tables.\<close>

definition get_actual_date :: "string \<Rightarrow> string \<Rightarrow> (string \<times> date option) list \<Rightarrow> string" where
  "get_actual_date selected custom options =
     (if selected = ''None'' then []
      else if selected = ''Custom'' then convert_display_to_iso custom
      else (case map_of options selected of
              Some (Some date_obj) \<Rightarrow> strftime_iso date_obj
            | _ \<Rightarrow> []))"

definition get_actual_start_date :: "app \<Rightarrow> string" where
  "get_actual_start_date st =
     get_actual_date (start_date_var (form st)) (custom_start_date_var (form st)) (start_options st)"

definition get_actual_due_date :: "app \<Rightarrow> string" where
  "get_actual_due_date st =
     get_actual_date (due_date_var (form st)) (custom_due_date_var (form st)) (due_options st)"

definition get_reminder_time_string :: "form \<Rightarrow> string" where
  "get_reminder_time_string f =
     (if \<not> reminder_var f then []
      else zfill2 (reminder_hour_var f) @ '':'' @ zfill2 (reminder_minute_var f))"

text \<open>\<open>get_repeat_settings\<close>: \<open>int\<close> of the count field raises \<open>ValueError\<close> on text
  that is not a number.\<close>

definition get_repeat_settings :: "form \<Rightarrow> error + pyval" where
  "get_repeat_settings f =
     (if \<not> reminder_var f \<or> repeat_frequency_var f = ''None'' then Inr PNone
      else
        (let settings = [(''frequency'', PStr (repeat_frequency_var f)),
                         (''end_type'', PStr (repeat_end_var f))]
         in if repeat_end_var f = ''After X occurrences'' then
              (case py_int (repeat_count_var f) of
                 None \<Rightarrow> Inl ValueError
               | Some n \<Rightarrow> Inr (PDict (dict_set settings ''count'' (PInt n))))
            else if repeat_end_var f = ''Until date'' then
              Inr (PDict (dict_set settings ''end_date''
                     (PStr (convert_display_to_iso (repeat_end_date_var f)))))
            else Inr (PDict settings)))"

text \<open>The form as \<open>clear_form\<close> leaves it, which is also how it is first set up;
  \<open>today\<close> is the clock reading formatted with \<open>%b %d, %Y\<close>. The description is what
  \<open>get("1.0", END)\<close> returns for the text widget: its text and the newline Tk ends it
  with.\<close>

definition cleared_form :: "string \<Rightarrow> form" where
  "cleared_form today =
     \<lparr>subject_var = [], project_var = ''None'', priority_var = ''None'',
      status_var = ''Not Started'', progress_var = 0,
      start_date_var = ''None'', custom_start_date_var = today,
      due_date_var = ''None'', custom_due_date_var = today,
      reminder_var = False, reminder_date_var = today,
      reminder_hour_var = ''09'', reminder_minute_var = ''00'',
      repeat_frequency_var = ''None'', repeat_end_var = ''Never'',
      repeat_count_var = ''5'', repeat_end_date_var = today,
      category_var = ''-- Select Category --'', owner_var = [], location_var = [],
      description_text = [CHR 0x0A]\<rparr>"

section \<open>Creating and updating a task\<close>

definition showerror :: "string \<Rightarrow> app \<Rightarrow> app" where
  "showerror message st = st\<lparr>dialogs := dialogs st @ [(''Error'', message)]\<rparr>"

definition showinfo :: "string \<Rightarrow> app \<Rightarrow> app" where
  "showinfo message st = st\<lparr>dialogs := dialogs st @ [(''Success'', message)]\<rparr>"

definition save_categories :: "app \<Rightarrow> app" where
  "save_categories st = st\<lparr>categories_json := Some (categories st)\<rparr>"

definition save_projects :: "app \<Rightarrow> app" where
  "save_projects st = st\<lparr>projects_json := Some (projects st)\<rparr>"

definition save_locations :: "app \<Rightarrow> app" where
  "save_locations st = st\<lparr>locations_json := Some (locations st)\<rparr>"

text \<open>\<open>json.dump(self.tasks, f)\<close> writes the dictionaries the list refers to.\<close>

definition auto_save_tasks :: "app \<Rightarrow> app" where
  "auto_save_tasks st = st\<lparr>tasks_json := Some (map (\<lambda>a. heap st ! a) (tasks st))\<rparr>"

text \<open>The three blocks "handle new category, project, location", shared word for word by
  \<open>create_task\<close> and \<open>update_task\<close>.\<close>

definition remember_category :: "string \<Rightarrow> app \<Rightarrow> app" where
  "remember_category category st =
     (if category \<noteq> [] \<and> category \<notin> set (categories st)
      then save_categories (st\<lparr>categories := sort (categories st @ [category])\<rparr>)
      else st)"

definition remember_project :: "string \<Rightarrow> app \<Rightarrow> app" where
  "remember_project project st =
     (if project \<noteq> [] \<and> project \<noteq> ''None'' \<and> project \<notin> set (projects st)
      then save_projects (st\<lparr>projects := sort (projects st @ [project])\<rparr>)
      else st)"

definition remember_location :: "string \<Rightarrow> app \<Rightarrow> app" where
  "remember_location location st =
     (if location \<noteq> [] \<and> location \<notin> set (locations st)
      then save_locations (st\<lparr>locations := sort (locations st @ [location])\<rparr>)
      else st)"

text \<open>The entries \<open>subject\<close> to \<open>description\<close> of the dictionary literal, the same in
  both operations. Only \<open>get_repeat_settings\<close> can raise.\<close>

definition form_entries :: "app \<Rightarrow> string \<Rightarrow> string \<Rightarrow> string \<Rightarrow> error + pydict" where
  "form_entries st project category location =
     (let f = form st in
      case get_repeat_settings f of
        Inl e \<Rightarrow> Inl e
      | Inr repeat_settings \<Rightarrow>
          Inr [(''subject'', PStr (strip (subject_var f))),
               (''project'', PStr (if project \<noteq> ''None'' then project else [])),
               (''priority'', PStr (priority_var f)),
               (''status'', PStr (status_var f)),
               (''progress'', PInt (progress_var f)),
               (''start_date'', PStr (get_actual_start_date st)),
               (''due_date'', PStr (get_actual_due_date st)),
               (''due_date_type'', PStr (due_date_var f)),
               (''reminder'', PBool (reminder_var f)),
               (''reminder_date'', PStr (if reminder_var f
                    then convert_display_to_iso (reminder_date_var f) else [])),
               (''reminder_time'', PStr (get_reminder_time_string f)),
               (''repeat_settings'', repeat_settings),
               (''category'', PStr category),
               (''owner'', PStr (strip (owner_var f))),
               (''location'', PStr location),
               (''description'', PStr (strip (description_text f)))])"

text \<open>\<open>exit_edit_mode\<close> followed by the \<open>clear_form\<close> it calls, and \<open>clear_form\<close> itself,
  which leaves edit mode first when a task (a non-empty dictionary) is being edited.\<close>

definition exit_edit_mode :: "string \<Rightarrow> app \<Rightarrow> app" where
  "exit_edit_mode today st = st\<lparr>editing_task := None, form := cleared_form today\<rparr>"

definition clear_form :: "string \<Rightarrow> app \<Rightarrow> app" where
  "clear_form today st =
     (case editing_task st of
        Some a \<Rightarrow> if heap st ! a \<noteq> [] then exit_edit_mode today st
                  else st\<lparr>form := cleared_form today\<rparr>
      | None \<Rightarrow> st\<lparr>form := cleared_form today\<rparr>)"

text \<open>\<open>d.update(entries)\<close>\<close>

definition dict_update :: "('k \<times> 'v) list \<Rightarrow> ('k \<times> 'v) list \<Rightarrow> ('k \<times> 'v) list" where
  "dict_update d entries = foldl (\<lambda>acc (k, v). dict_set acc k v) d entries"

text \<open>
  \<open>create_task\<close>. The result is the new state and the exception that left the method,
  if one did. \<open>now\<close> is the clock reading formatted for \<open>created_date\<close>.
\<close>

definition create_task :: "string \<Rightarrow> string \<Rightarrow> app \<Rightarrow> app \<times> error option" where
  "create_task now today st =
     (if strip (subject_var (form st)) = [] then
        (showerror ''Task name is required!'' st, None)
      else
        (let category = strip (category_var (form st)) in
         if category = [] \<or> category = ''-- Select Category --'' then
           (showerror ''Please select a category for this task!'' st, None)
         else
           (let st1 = remember_category category st;
                project = strip (project_var (form st));
                st2 = remember_project project st1;
                location = strip (location_var (form st));
                st3 = remember_location location st2
            in case form_entries st3 project category location of
                 Inl e \<Rightarrow> (st3, Some e)
               | Inr entries \<Rightarrow>
                   (let task = [(''id'', PInt (int (length (tasks st3)) + 1))] @ entries
                                 @ [(''created_date'', PStr now)];
                        st4 = auto_save_tasks (append_task task st3);
                        st5 = st4\<lparr>task_list_visible := True\<rparr>;
                        st6 = showinfo (''Task '' @ [CHR 0x27] @ strip (subject_var (form st))
                                 @ [CHR 0x27] @ '' created and saved successfully!'') st5
                    in (clear_form today st6, None)))))"

text \<open>
  \<open>update_task\<close>. The attribute \<open>self.editing_task.update\<close> is looked up before the
  dictionary literal is built, so outside edit mode the method raises
  \<open>AttributeError\<close>. The update writes the entries into the dictionary being edited,
  which the task list shares.
\<close>

definition update_task :: "string \<Rightarrow> app \<Rightarrow> app \<times> error option" where
  "update_task today st =
     (if strip (subject_var (form st)) = [] then
        (showerror ''Task name is required!'' st, None)
      else
        (let category = strip (category_var (form st)) in
         if category = [] \<or> category = ''-- Select Category --'' then
           (showerror ''Please select a category for this task!'' st, None)
         else
           (let st1 = remember_category category st;
                project = strip (project_var (form st));
                st2 = remember_project project st1;
                location = strip (location_var (form st));
                st3 = remember_location location st2
            in case editing_task st3 of
                 None \<Rightarrow> (st3, Some AttributeError)
               | Some a \<Rightarrow>
                   (case form_entries st3 project category location of
                      Inl e \<Rightarrow> (st3, Some e)
                    | Inr entries \<Rightarrow>
                        (let st4 = st3\<lparr>heap := (heap st3)[a := dict_update (heap st3 ! a) entries]\<rparr>;
                             st5 = auto_save_tasks st4;
                             st6 = showinfo (''Task '' @ [CHR 0x27] @ strip (subject_var (form st))
                                      @ [CHR 0x27] @ '' updated successfully!'') st5
                         in (exit_edit_mode today st6, None))))))"

text \<open>\<open>create_or_update_task\<close>, the command of the form's button.\<close>

definition create_or_update_task :: "string \<Rightarrow> string \<Rightarrow> app \<Rightarrow> app \<times> error option" where
  "create_or_update_task now today st =
     (case editing_task st of
        Some a \<Rightarrow> if heap st ! a \<noteq> [] then update_task today st else create_task now today st
      | None \<Rightarrow> create_task now today st)"

text \<open>The state \<open>__init__\<close> builds when no store exists on disk. The two option tables
  hold dates computed from the clock at that moment.\<close>

definition initial_app :: "string \<Rightarrow> (string \<times> date option) list \<Rightarrow> (string \<times> date option) list \<Rightarrow> app" where
  "initial_app today start_opts due_opts =
     \<lparr>heap = [], tasks = [], editing_task = None,
      categories = [''Work'', ''Business'', ''Fun'', ''Home'', ''Ideas'', ''Important'',
                    ''Needs Preparation'', ''Personal'', ''Phone Call'', ''School'', ''Sport'',
                    ''Travel Required''],
      projects = [], locations = [], task_list_visible = True,
      start_options = start_opts, due_options = due_opts,
      form = cleared_form today, files = [],
      tasks_json = None, categories_json = None, projects_json = None, locations_json = None,
      dialogs = []\<rparr>"

section \<open>Sample data\<close>

text \<open>A task as \<open>create_task\<close> stores it, the one of the round-trip scenario.\<close>

abbreviation pay_invoice :: pydict where
  "pay_invoice \<equiv>
     [(''id'', PInt 1), (''subject'', PStr ''Pay invoice''), (''project'', PStr []),
      (''priority'', PStr ''High''), (''status'', PStr ''In Progress''), (''progress'', PInt 40),
      (''start_date'', PStr []), (''due_date'', PStr ''2024-03-01''),
      (''due_date_type'', PStr ''Custom''), (''reminder'', PBool False),
      (''reminder_date'', PStr []), (''reminder_time'', PStr []),
      (''repeat_settings'', PNone), (''category'', PStr ''Business''), (''owner'', PStr []),
      (''location'', PStr []), (''description'', PStr []),
      (''created_date'', PStr ''2024-02-01 10:00:00'')]"

text \<open>The application just started, with a subject typed into the form and no category
  chosen.\<close>

abbreviation no_category_state :: app where
  "no_category_state \<equiv>
     (initial_app ''Jan 15, 2024'' [] [])
       \<lparr>form := (cleared_form ''Jan 15, 2024'')\<lparr>subject_var := ''Buy milk''\<rparr>\<rparr>"

text \<open>One stored task, taken into the form for editing, with a new subject and a category
  typed in.\<close>

abbreviation editing_state :: app where
  "editing_state \<equiv>
     (initial_app ''Jan 15, 2024'' [] [])
       \<lparr>heap := [[(''id'', PInt 1), (''subject'', PStr ''Old name''),
                  (''category'', PStr ''Home''),
                  (''created_date'', PStr ''2024-01-01 09:00:00'')]],
        tasks := [0],
        editing_task := Some 0,
        form := (cleared_form ''Jan 15, 2024'')
                  \<lparr>subject_var := ''New name'', category_var := ''Work''\<rparr>\<rparr>"

section \<open>Facts about the string functions\<close>

lemma startswith_iff: "startswith s p \<longleftrightarrow> take (length p) s = p"
  by (induction s p rule: startswith.induct) auto

lemma find_sep_sound: "find_sep sep s = Some (a, b) \<Longrightarrow> s = a @ sep @ b"
proof (induction s arbitrary: a b)
  case Nil
  then show ?case by (simp split: if_splits)
next
  case (Cons c cs)
  show ?case
  proof (cases "startswith (c # cs) sep")
    case True
    with Cons.prems have "a = []" "b = drop (length sep) (c # cs)" by auto
    moreover from True have "take (length sep) (c # cs) = sep" by (simp only: startswith_iff)
    ultimately show ?thesis by (metis append_Nil append_take_drop_id)
  next
    case False
    with Cons.prems obtain a' where a': "find_sep sep cs = Some (a', b)" "a = c # a'"
      by (auto split: option.splits)
    from Cons.IH [OF a'(1)] a'(2) show ?thesis by simp
  qed
qed

lemma find_sep_char: "c \<notin> set a \<Longrightarrow> find_sep [c] (a @ c # b) = Some (a, b)"
  by (induction a) auto

lemma find_sep_char_none: "c \<notin> set s \<Longrightarrow> find_sep [c] s = None"
  by (induction s) auto

lemma contains_char: "contains [c] s \<longleftrightarrow> c \<in> set s"
proof
  assume "contains [c] s"
  then obtain a b where "find_sep [c] s = Some (a, b)" by (auto simp: contains_def)
  from find_sep_sound [OF this] show "c \<in> set s" by simp
next
  assume "c \<in> set s"
  then obtain a b where "s = a @ c # b" "c \<notin> set a" by (meson split_list_first)
  then show "contains [c] s" by (simp add: contains_def find_sep_char)
qed

lemma split_char_none: "c \<notin> set s \<Longrightarrow> split [c] s = [s]"
  by (simp add: split.simps find_sep_char_none)

lemma split_char_cons: "c \<notin> set a \<Longrightarrow> split [c] (a @ c # b) = a # split [c] b"
  by (subst split.simps) (simp add: find_sep_char)

lemma find_sep_last_none:
  assumes "sep \<noteq> []" "last sep \<notin> set s"
  shows "find_sep sep s = None"
proof (rule ccontr)
  assume "find_sep sep s \<noteq> None"
  then obtain a b where "find_sep sep s = Some (a, b)" by auto
  from find_sep_sound [OF this] have "set sep \<subseteq> set s" by auto
  with assms show False using last_in_set by blast
qed

lemma first_occurrence_unique:
  "c \<notin> set x \<Longrightarrow> c \<notin> set y \<Longrightarrow> x @ c # y = x' @ c # y' \<Longrightarrow> x = x' \<and> y = y'"
proof (induction x arbitrary: x')
  case Nil
  then show ?case by (cases x') auto
next
  case (Cons d x)
  then show ?case by (cases x') auto
qed

lemma index_simps [simp]:
  "index (x # xs) 0 = Inr x"
  "index (x # y # ys) 1 = Inr y"
  "index (x # y # ys) (Suc 0) = Inr y"
  by (simp_all add: index_def)

lemma strip_prefix:
  assumes k: "CHR '':'' \<notin> set key" and r: "CHR '':'' \<notin> set rest"
  shows "(if contains ''VALUE=DATE:'' (key @ '':'' @ rest)
          then index (split ''VALUE=DATE:'' (key @ '':'' @ rest)) 1
          else if contains '':'' (key @ '':'' @ rest)
          then index (split '':'' (key @ '':'' @ rest)) 1
          else Inr (key @ '':'' @ rest)) = Inr rest"
proof (cases "contains ''VALUE=DATE:'' (key @ '':'' @ rest)")
  case True
  then obtain a b where ab: "find_sep ''VALUE=DATE:'' (key @ '':'' @ rest) = Some (a, b)"
    by (auto simp: contains_def)
  from find_sep_sound [OF ab]
  have "key @ CHR '':'' # rest = (a @ ''VALUE=DATE'') @ CHR '':'' # b" by simp
  from first_occurrence_unique [OF k r this] have b: "b = rest" by simp
  have "find_sep ''VALUE=DATE:'' rest = None"
    using r by (intro find_sep_last_none) simp_all
  then have "split ''VALUE=DATE:'' (key @ '':'' @ rest) = [a, rest]"
    using ab b by (simp add: split.simps)
  with True show ?thesis by simp
next
  case False
  have "split '':'' (key @ '':'' @ rest) = [key, rest]"
    using k r by (simp add: split_char_cons split_char_none)
  with False show ?thesis by (simp add: contains_char)
qed

lemma strip_time:
  assumes "CHR ''T'' \<notin> set tok"
  shows "(if contains ''T'' (tok @ ''T'' @ time) then index (split ''T'' (tok @ ''T'' @ time)) 0
          else Inr (tok @ ''T'' @ time)) = Inr tok"
  using assms by (simp add: contains_char split_char_cons)

lemma no_time:
  assumes "CHR ''T'' \<notin> set tok"
  shows "(if contains ''T'' tok then index (split ''T'' tok) 0 else Inr tok) = Inr tok"
  using assms by (simp add: contains_char)

lemma digits_no_letter:
  assumes "list_all isdigit tok"
  shows "CHR ''T'' \<notin> set tok \<and> CHR '':'' \<notin> set tok"
proof -
  have "\<not> isdigit CHR ''T''" "\<not> isdigit CHR '':''" by (simp_all add: isdigit_def)
  moreover have "\<And>c. c \<in> set tok \<Longrightarrow> isdigit c"
    using assms by (simp add: list_all_iff)
  ultimately show ?thesis by blast
qed

lemma no_prefix:
  assumes r: "CHR '':'' \<notin> set rest"
  shows "(if contains ''VALUE=DATE:'' rest then index (split ''VALUE=DATE:'' rest) 1
          else if contains '':'' rest then index (split '':'' rest) 1
          else Inr rest) = Inr rest"
proof -
  have "find_sep ''VALUE=DATE:'' rest = None"
    using r by (intro find_sep_last_none) simp_all
  then have "\<not> contains ''VALUE=DATE:'' rest" by (simp add: contains_def)
  moreover have "\<not> contains '':'' rest" using r by (simp add: contains_char)
  ultimately show ?thesis by simp
qed

lemma body_of_token:
  assumes "list_all isdigit tok" "length tok = 8"
    and pre: "(if contains ''VALUE=DATE:'' s then index (split ''VALUE=DATE:'' s) 1
          else if contains '':'' s then index (split '':'' s) 1
          else Inr s) = Inr rest"
    and tm: "(if contains ''T'' rest then index (split ''T'' rest) 0 else Inr rest) = Inr tok"
  shows "convert_ics_date_body s =
         Inr (Some (take 4 tok @ ''-'' @ take 2 (drop 4 tok) @ ''-'' @ take 2 (drop 6 tok)))"
  unfolding convert_ics_date_body_def pre using assms(1,2) tm
  by (auto simp: str_isdigit_def)

lemma convert_general:
  assumes d: "list_all isdigit tok" and l: "length tok = 8"
    and k: "CHR '':'' \<notin> set key" and t: "CHR '':'' \<notin> set time"
  shows "convert_ics_date tok = take 4 tok @ ''-'' @ take 2 (drop 4 tok) @ ''-'' @ take 2 (drop 6 tok)"
    and "convert_ics_date (tok @ ''T'' @ time) = take 4 tok @ ''-'' @ take 2 (drop 4 tok) @ ''-'' @ take 2 (drop 6 tok)"
    and "convert_ics_date (key @ '':'' @ tok) = take 4 tok @ ''-'' @ take 2 (drop 4 tok) @ ''-'' @ take 2 (drop 6 tok)"
    and "convert_ics_date (key @ '':'' @ tok @ ''T'' @ time) = take 4 tok @ ''-'' @ take 2 (drop 4 tok) @ ''-'' @ take 2 (drop 6 tok)"
proof -
  from digits_no_letter [OF d] have nt: "CHR ''T'' \<notin> set tok" and nc: "CHR '':'' \<notin> set tok"
    by simp_all
  have ne: "tok \<noteq> []" using l by auto
  have c2: "CHR '':'' \<notin> set (tok @ ''T'' @ time)" using nc t by simp
  show "convert_ics_date tok = take 4 tok @ ''-'' @ take 2 (drop 4 tok) @ ''-'' @ take 2 (drop 6 tok)"
    using body_of_token [OF d l no_prefix [OF nc] no_time [OF nt]] ne
    by (simp add: convert_ics_date_def)
  show "convert_ics_date (tok @ ''T'' @ time) = take 4 tok @ ''-'' @ take 2 (drop 4 tok) @ ''-'' @ take 2 (drop 6 tok)"
    using body_of_token [OF d l no_prefix [OF c2] strip_time [OF nt]] ne
    by (simp add: convert_ics_date_def)
  show "convert_ics_date (key @ '':'' @ tok) = take 4 tok @ ''-'' @ take 2 (drop 4 tok) @ ''-'' @ take 2 (drop 6 tok)"
    using body_of_token [OF d l strip_prefix [OF k nc] no_time [OF nt]]
    by (simp add: convert_ics_date_def)
  show "convert_ics_date (key @ '':'' @ tok @ ''T'' @ time) = take 4 tok @ ''-'' @ take 2 (drop 4 tok) @ ''-'' @ take 2 (drop 6 tok)"
    using body_of_token [OF d l strip_prefix [OF k c2] strip_time [OF nt]]
    by (simp add: convert_ics_date_def)
qed


lemma convert_shape:
  "convert_ics_date s = [] \<or>
   (\<exists>tok. length tok = 8 \<and> list_all isdigit tok \<and>
      convert_ics_date s = take 4 tok @ ''-'' @ take 2 (drop 4 tok) @ ''-'' @ take 2 (drop 6 tok))"
proof (cases "convert_ics_date s = []")
  case True
  then show ?thesis by simp
next
  case False
  then obtain r where r: "convert_ics_date_body s = Inr (Some r)" "convert_ics_date s = r"
    by (auto simp: convert_ics_date_def split: if_splits sum.splits option.splits)
  from r(1) obtain tok where "length tok = 8" "str_isdigit tok"
    "r = take 4 tok @ ''-'' @ take 2 (drop 4 tok) @ ''-'' @ take 2 (drop 6 tok)"
    unfolding convert_ics_date_body_def
    by (auto split: sum.splits if_splits)
  with r(2) show ?thesis by (auto simp: str_isdigit_def)
qed

lemma replace_empty: "old \<noteq> [] \<Longrightarrow> replace old new [] = []"
  by (simp add: replace_def split.simps)

lemma py_int_zero: "py_int ''0'' = Some 0"
  by (simp add: py_int_def int_space_def isdigit_def digit_val_def)

section \<open>Properties of the vocabulary mappers\<close>

text \<open>
  C1. The ICS-to-domain priority conversion has no lower bound on its first range: the
  test is \<open>priority <= 3\<close>, so the string \<open>0\<close>, which the claim sends to \<open>None\<close>,
  is converted to \<open>High\<close>. Zero is what \<open>get_ics_priority\<close> writes for the domain
  priority \<open>None\<close> and what the importer substitutes for a missing PRIORITY key, so a task
  of priority \<open>None\<close> comes back as \<open>High\<close>.
\<close>

theorem convert_ics_priority_zero_is_high:
  "convert_ics_priority ''0'' = ''High''
   \<and> convert_ics_priority (get_ics_priority ''None'') = ''High''
   \<and> convert_ics_priority ''-4'' = ''High''"
  by (simp add: convert_ics_priority_def get_ics_priority_def dict_get_def py_int_def
      int_space_def isdigit_def digit_val_def)

text \<open>
  C5. The status mapping round-trips Not Started, In Progress, Completed and Deferred;
  Waiting is written as NEEDS-ACTION and comes back as Not Started.
\<close>

theorem status_round_trip:
  "convert_ics_status (get_ics_status ''Not Started'') = ''Not Started''
   \<and> convert_ics_status (get_ics_status ''In Progress'') = ''In Progress''
   \<and> convert_ics_status (get_ics_status ''Completed'') = ''Completed''
   \<and> convert_ics_status (get_ics_status ''Deferred'') = ''Deferred''
   \<and> convert_ics_status (get_ics_status ''Waiting'') = ''Not Started''"
  by (simp add: convert_ics_status_def get_ics_status_def dict_get_def)

text \<open>
  C6. \<open>convert_ics_date\<close> on a token of eight digits, bare, behind any prefix that ends
  in a colon and holds no other colon (a property name, or a name with \<open>;VALUE=DATE\<close>),
  and in front of any \<open>T\<close> time part without a colon, gives the token with dashes after
  the year and the month. Whatever the input, the result is empty or such a dashed
  token; the function returns on every input, since every step that could raise is
  inside the \<open>try\<close>. The inputs of the specification are instances.
\<close>

theorem convert_ics_date_spec:
  assumes "list_all isdigit tok" and "length tok = 8"
    and "CHR '':'' \<notin> set key" and "CHR '':'' \<notin> set time"
  shows "convert_ics_date tok = take 4 tok @ ''-'' @ take 2 (drop 4 tok) @ ''-'' @ take 2 (drop 6 tok)
    \<and> convert_ics_date (tok @ ''T'' @ time)
        = take 4 tok @ ''-'' @ take 2 (drop 4 tok) @ ''-'' @ take 2 (drop 6 tok)
    \<and> convert_ics_date (key @ '':'' @ tok)
        = take 4 tok @ ''-'' @ take 2 (drop 4 tok) @ ''-'' @ take 2 (drop 6 tok)
    \<and> convert_ics_date (key @ '';VALUE=DATE:'' @ tok)
        = take 4 tok @ ''-'' @ take 2 (drop 4 tok) @ ''-'' @ take 2 (drop 6 tok)
    \<and> convert_ics_date (key @ '':'' @ tok @ ''T'' @ time)
        = take 4 tok @ ''-'' @ take 2 (drop 4 tok) @ ''-'' @ take 2 (drop 6 tok)
    \<and> convert_ics_date ''DTSTART;VALUE=DATE:20241225'' = ''2024-12-25''
    \<and> convert_ics_date ''DTSTART:20241225T090000'' = ''2024-12-25''
    \<and> convert_ics_date [] = []
    \<and> convert_ics_date ''garbage'' = []
    \<and> (convert_ics_date s = [] \<or>
        (\<exists>d. length d = 8 \<and> list_all isdigit d \<and>
           convert_ics_date s = take 4 d @ ''-'' @ take 2 (drop 4 d) @ ''-'' @ take 2 (drop 6 d)))"
proof -
  have k': "CHR '':'' \<notin> set (key @ '';VALUE=DATE'')" using assms(3) by simp
  have v: "convert_ics_date (key @ '';VALUE=DATE:'' @ tok)
        = take 4 tok @ ''-'' @ take 2 (drop 4 tok) @ ''-'' @ take 2 (drop 6 tok)"
    using convert_general(3) [OF assms(1,2) k' assms(4)] by simp
  have e1: "convert_ics_date ''DTSTART;VALUE=DATE:20241225'' = ''2024-12-25''" by code_simp
  have e2: "convert_ics_date ''DTSTART:20241225T090000'' = ''2024-12-25''" by code_simp
  have e3: "convert_ics_date [] = []" by (simp add: convert_ics_date_def)
  have e4: "convert_ics_date ''garbage'' = []" by code_simp
  show ?thesis
    using convert_general [OF assms] v e1 e2 e3 e4 convert_shape [of s] by blast
qed

theorem convert_ics_date_spec_witness:
  "list_all isdigit ''20241225'' \<and> length ''20241225'' = 8
   \<and> CHR '':'' \<notin> set ''DTSTART'' \<and> CHR '':'' \<notin> set ''090000''
   \<and> convert_ics_date (''DTSTART'' @ '';VALUE=DATE:'' @ ''20241225'') = ''2024-12-25''
   \<and> convert_ics_date (''DTSTART'' @ '':'' @ ''20241225'' @ ''T'' @ ''090000'') = ''2024-12-25''"
proof -
  have h1: "list_all isdigit ''20241225''" by (simp add: isdigit_def)
  have h2: "length ''20241225'' = 8" by simp
  have h3: "CHR '':'' \<notin> set ''DTSTART''" by simp
  have h4: "CHR '':'' \<notin> set ''090000''" by simp
  from convert_ics_date_spec [OF h1 h2 h3 h4, of "''garbage''"] h1 h2 h3 h4
  show ?thesis by simp
qed

section \<open>Properties of the block parser and the importer\<close>

lemma task_of_plain_item:
  "task_of_item n nw [(''type'', ''VTODO''), (''SUMMARY'', s)] =
     Inr [(''id'', PInt (int n + 1)), (''subject'', PStr s),
          (''priority'', PStr ''High''), (''status'', PStr ''Not Started''),
          (''progress'', PInt 0), (''start_date'', PStr []),
          (''due_date'', PStr []), (''due_date_type'', PStr ''Custom''),
          (''reminder'', PBool False), (''reminder_date'', PStr []),
          (''reminder_time'', PStr []), (''repeat_settings'', PNone),
          (''category'', PStr []), (''owner'', PStr []),
          (''location'', PStr []), (''description'', PStr []),
          (''created_date'', PStr nw)]"
  by (simp add: task_of_item_def dict_get_def py_int_zero replace_empty
      convert_ics_priority_def convert_ics_status_def convert_ics_date_def)

lemma rstrip_is_prefix: "rstrip s @ rev (takeWhile isspace (rev s)) = s"
proof -
  have "rev (dropWhile isspace (rev s)) @ rev (takeWhile isspace (rev s))
        = rev (takeWhile isspace (rev s) @ dropWhile isspace (rev s))"
    by (simp only: rev_append)
  also have "\<dots> = rev (rev s)" by (simp only: takeWhile_dropWhile_id)
  also have "\<dots> = s" by (simp only: rev_rev_ident)
  finally show ?thesis by (simp only: rstrip_def)
qed

lemma strip_starts_without_space:
  assumes "strip raw = c # cs"
  shows "\<not> isspace c"
proof -
  have "rstrip (lstrip raw) @ rev (takeWhile isspace (rev (lstrip raw))) = lstrip raw"
    by (rule rstrip_is_prefix)
  moreover from assms have "rstrip (lstrip raw) = c # cs" by (simp only: strip_def)
  ultimately have "lstrip raw = c # (cs @ rev (takeWhile isspace (rev (lstrip raw))))"
    by (metis append_Cons)
  then obtain rest where "dropWhile isspace raw = c # rest"
    unfolding lstrip_def by blast
  then have "dropWhile isspace raw \<noteq> []" "hd (dropWhile isspace raw) = c"
    by (simp_all only: list.distinct list.sel not_False_eq_True)
  then show ?thesis using hd_dropWhile by metis
qed

lemma continuation_test_never_succeeds:
  "\<not> startswith (strip raw) '' ''" "\<not> startswith (strip raw) [CHR 0x09]"
proof -
  have "c \<noteq> CHR 0x20 \<and> c \<noteq> CHR 0x09" if "strip raw = c # cs" for c cs
    using strip_starts_without_space [OF that] by (auto simp: isspace_def)
  then show "\<not> startswith (strip raw) '' ''" "\<not> startswith (strip raw) [CHR 0x09]"
    by (cases "strip raw"; simp)+
qed

text \<open>
  C2. Every line is stripped before it is examined, so the test for a leading space or
  tab never succeeds, whatever the line: an indented line that holds a colon is read as
  a property. In this block the line \<open>" NOTE:a"\<close> sets the key NOTE and the line
  \<open>"\tSUMMARY:Other"\<close> overwrites SUMMARY, where the claim has both skipped.
\<close>

theorem indented_line_sets_key:
  "\<not> startswith (strip raw) '' '' \<and> \<not> startswith (strip raw) [CHR 0x09]
   \<and> parse_ics (join [CHR 0x0A]
        [''BEGIN:VTODO'', ''SUMMARY:Call'', '' NOTE:a'', CHR 0x09 # ''SUMMARY:Other'',
         ''END:VTODO''])
      = Inr [[(''type'', ''VTODO''), (''SUMMARY'', ''Other''), (''NOTE'', ''a'')]]"
proof -
  have "parse_ics (join [CHR 0x0A]
        [''BEGIN:VTODO'', ''SUMMARY:Call'', '' NOTE:a'', CHR 0x09 # ''SUMMARY:Other'',
         ''END:VTODO''])
      = Inr [[(''type'', ''VTODO''), (''SUMMARY'', ''Other''), (''NOTE'', ''a'')]]"
    by code_simp
  with continuation_test_never_succeeds [of raw] show ?thesis by (intro conjI)
qed

text \<open>
  C3. A PERCENT-COMPLETE value that is not an integer literal makes \<open>int\<close> raise inside
  the dictionary literal; the exception is caught only by the \<open>try\<close> around the whole
  import, which returns \<open>False\<close>. No task is made from the block, where the claim has
  progress 0 and a successful import.
\<close>

theorem bad_percent_complete_fails_import:
  "task_of_item n nw [(''type'', ''VTODO''), (''SUMMARY'', ''Report''),
                      (''PERCENT-COMPLETE'', ''50%'')] = Inl ValueError
   \<and> import_from_ics now ''t.ics''
        (st\<lparr>files := [(''t.ics'', join [CHR 0x0A]
            [''BEGIN:VTODO'', ''SUMMARY:Report'', ''PERCENT-COMPLETE:50%'', ''END:VTODO''])]\<rparr>)
      = (st\<lparr>files := [(''t.ics'', join [CHR 0x0A]
            [''BEGIN:VTODO'', ''SUMMARY:Report'', ''PERCENT-COMPLETE:50%'', ''END:VTODO''])]\<rparr>,
         False)"
proof -
  have i: "py_int ''50%'' = None"
    by (simp add: py_int_def int_space_def isdigit_def digit_val_def)
  have t: "task_of_item n nw [(''type'', ''VTODO''), (''SUMMARY'', ''Report''),
                      (''PERCENT-COMPLETE'', ''50%'')] = Inl ValueError" for n nw
    by (simp add: task_of_item_def dict_get_def i)
  have p: "parse_ics (universal_newlines (join [CHR 0x0A]
            [''BEGIN:VTODO'', ''SUMMARY:Report'', ''PERCENT-COMPLETE:50%'', ''END:VTODO'']))
     = Inr [[(''type'', ''VTODO''), (''SUMMARY'', ''Report''), (''PERCENT-COMPLETE'', ''50%'')]]"
    by code_simp
  show ?thesis
    apply (rule conjI)
     apply (rule t)
    apply (simp only: import_from_ics_def)
    apply (simp add: p t del: join.simps)
    done
qed

text \<open>
  C10. An END line does not reset the accumulated block. A complete VTODO block followed
  by a second END:VTODO is therefore appended twice, and the import makes two tasks from
  it: they have the same entries apart from \<open>id\<close>, which counts the task list, and
  \<open>created_date\<close>, which reads the clock.
\<close>

theorem unmatched_end_duplicates_task:
  "parse_ics (join [CHR 0x0A] [''BEGIN:VTODO'', ''SUMMARY:Pay rent'', ''END:VTODO'', ''END:VTODO''])
     = Inr [[(''type'', ''VTODO''), (''SUMMARY'', ''Pay rent'')],
            [(''type'', ''VTODO''), (''SUMMARY'', ''Pay rent'')]]
   \<and> (case import_from_ics now ''dup.ics''
              (st\<lparr>files := [(''dup.ics'',
                  join [CHR 0x0A] [''BEGIN:VTODO'', ''SUMMARY:Pay rent'', ''END:VTODO'', ''END:VTODO''])]\<rparr>) of
         (st', ok) \<Rightarrow>
           ok \<and> tasks st' = tasks st @ [length (heap st), length (heap st) + 1]
           \<and> (\<exists>t. heap st' = heap st @
                 [(''id'', PInt (int (length (tasks st)) + 1)) # (''subject'', PStr ''Pay rent'') # t
                    @ [(''created_date'', PStr (now 0))],
                  (''id'', PInt (int (length (tasks st)) + 2)) # (''subject'', PStr ''Pay rent'') # t
                    @ [(''created_date'', PStr (now 1))]]))"
proof -
  have p: "parse_ics (join [CHR 0x0A] [''BEGIN:VTODO'', ''SUMMARY:Pay rent'', ''END:VTODO'', ''END:VTODO''])
     = Inr [[(''type'', ''VTODO''), (''SUMMARY'', ''Pay rent'')],
            [(''type'', ''VTODO''), (''SUMMARY'', ''Pay rent'')]]"
    by code_simp
  have u: "universal_newlines (join [CHR 0x0A] [''BEGIN:VTODO'', ''SUMMARY:Pay rent'', ''END:VTODO'', ''END:VTODO''])
     = join [CHR 0x0A] [''BEGIN:VTODO'', ''SUMMARY:Pay rent'', ''END:VTODO'', ''END:VTODO'']"
    by code_simp
  show ?thesis
    apply (rule conjI)
     apply (rule p)
    apply (simp only: import_from_ics_def)
    apply (simp add: u p task_of_plain_item append_task_def del: join.simps)
    done
qed

section \<open>Properties of the recurrence rule\<close>

lemma map_of_dict_set: "map_of (dict_set d k v) k' = (if k' = k then Some v else map_of d k')"
  by (induction d) auto

lemma dict_set_nonempty: "dict_set d k v \<noteq> []"
  by (cases d) auto

lemma rrule_core:
  assumes fm: "map_of frequency_map f = Some F" and fr: "map_of rs ''frequency'' = Some (PStr f)"
  shows "generate_rrule (PDict rs) = Inr (Some (''FREQ='' @ F @
          (if dict_get rs ''end_type'' (PStr ''Never'') = PStr ''After X occurrences''
              \<and> truthy (get_none rs ''count'')
           then '';COUNT='' @ py_str (get_none rs ''count'')
           else if dict_get rs ''end_type'' (PStr ''Never'') = PStr ''Until date''
              \<and> truthy (get_none rs ''end_date'')
           then (case get_none rs ''end_date'' of
                   PStr e \<Rightarrow>
                     (case strptime_ymd e of
                        Some dt \<Rightarrow> '';UNTIL='' @ str_nat (year dt) @ pad2 (month dt)
                                     @ pad2 (day dt) @ ''T235959Z''
                      | None \<Rightarrow> [])
                 | _ \<Rightarrow> [])
           else [])))"
proof -
  from fm have fne: "f \<noteq> ''None''" and Fne: "F \<noteq> []"
    by (auto simp: frequency_map_def split: if_splits)
  from fr have rne: "rs \<noteq> []" by auto
  have g: "get_none rs ''frequency'' = PStr f" "subscript rs ''frequency'' = Inr (PStr f)"
    using fr by (simp_all add: get_none_def dict_get_def subscript_def)
  have t: "table_get frequency_map (PStr f) = Inr (Some F)"
    using fm by (simp add: table_get_def)
  have c: "truthy (get_none rs k) \<Longrightarrow> subscript rs k = Inr (get_none rs k)" for k
    by (cases "map_of rs k") (simp_all add: get_none_def dict_get_def subscript_def)
  show ?thesis
    unfolding generate_rrule_def
    using rne fne Fne
    by (auto simp: g t c Let_def until_part_def strftime_compact_def
        split: pyval.splits option.splits)
qed

lemma str_nat_four_digits:
  assumes "1000 \<le> y" and "y \<le> 9999"
  shows "length (str_nat y) = 4"
proof -
  have "\<not> y < 10" "\<not> y div 10 < 10" "\<not> y div 10 div 10 < 10" "y div 10 div 10 div 10 < 10"
    using assms by auto
  then show ?thesis
    by (simp add: str_nat.simps [of y] str_nat.simps [of "y div 10"]
        str_nat.simps [of "y div 10 div 10"] str_nat.simps [of "y div 10 div 10 div 10"])
qed

lemma generate_rrule_missing_frequency:
  "generate_rrule (PDict [(''end_type'', PStr ''Never'')]) = Inl KeyError"
  by (simp add: generate_rrule_def get_none_def dict_get_def subscript_def)

text \<open>
  C7. \<open>generate_rrule\<close> returns \<open>None\<close> when there are no settings (\<open>None\<close> or an empty
  dictionary) and when the frequency is the string \<open>None\<close> or the null value. For a
  frequency \<open>f\<close> among Daily, Weekly, Monthly and Yearly, with upper-case form \<open>F\<close>, it
  returns \<open>FREQ=F\<close>, followed by \<open>;COUNT=\<close> and the count when the end type is
  \<open>After X occurrences\<close> and the count is present (not zero, not empty), or by
  \<open>;UNTIL=\<close>, the year, the two-digit month and day and \<open>T235959Z\<close> when the end type is
  \<open>Until date\<close> and the end date parses as \<open>%Y-%m-%d\<close>, and by nothing otherwise. The
  two settings of the specification give \<open>FREQ=WEEKLY;COUNT=5\<close> and \<open>FREQ=MONTHLY\<close>.
\<close>

theorem generate_rrule_spec:
  assumes "(f, F) \<in> set [(''Daily'', ''DAILY''), (''Weekly'', ''WEEKLY''),
                          (''Monthly'', ''MONTHLY''), (''Yearly'', ''YEARLY'')]"
    and "map_of rs ''frequency'' = Some (PStr f)"
  shows "generate_rrule PNone = Inr None
    \<and> generate_rrule (PDict []) = Inr None
    \<and> generate_rrule (PDict (dict_set d ''frequency'' (PStr ''None''))) = Inr None
    \<and> generate_rrule (PDict (dict_set d ''frequency'' PNone)) = Inr None
    \<and> generate_rrule (PDict rs) = Inr (Some (''FREQ='' @ F @
          (if dict_get rs ''end_type'' (PStr ''Never'') = PStr ''After X occurrences''
              \<and> truthy (get_none rs ''count'')
           then '';COUNT='' @ py_str (get_none rs ''count'')
           else if dict_get rs ''end_type'' (PStr ''Never'') = PStr ''Until date''
              \<and> truthy (get_none rs ''end_date'')
           then (case get_none rs ''end_date'' of
                   PStr e \<Rightarrow>
                     (case strptime_ymd e of
                        Some dt \<Rightarrow> '';UNTIL='' @ str_nat (year dt) @ pad2 (month dt)
                                     @ pad2 (day dt) @ ''T235959Z''
                      | None \<Rightarrow> [])
                 | _ \<Rightarrow> [])
           else [])))
    \<and> generate_rrule (PDict [(''frequency'', PStr ''Weekly''),
                               (''end_type'', PStr ''After X occurrences''),
                               (''count'', PInt 5)]) = Inr (Some ''FREQ=WEEKLY;COUNT=5'')
    \<and> generate_rrule (PDict [(''frequency'', PStr ''Monthly''),
                               (''end_type'', PStr ''Never'')]) = Inr (Some ''FREQ=MONTHLY'')
    \<and> generate_rrule (PDict [(''frequency'', PStr ''Daily''),
                               (''end_type'', PStr ''Until date''),
                               (''end_date'', PStr ''2024-12-31'')])
        = Inr (Some ''FREQ=DAILY;UNTIL=20241231T235959Z'')"
proof -
  from assms(1) have fm: "map_of frequency_map f = Some F"
    by (auto simp: frequency_map_def)
  have n1: "generate_rrule PNone = Inr None" "generate_rrule (PDict []) = Inr None"
    by (simp_all add: generate_rrule_def)
  have n2: "generate_rrule (PDict (dict_set d ''frequency'' (PStr ''None''))) = Inr None"
    by (simp add: generate_rrule_def get_none_def dict_get_def map_of_dict_set dict_set_nonempty)
  have n3: "generate_rrule (PDict (dict_set d ''frequency'' PNone)) = Inr None"
    by (simp add: generate_rrule_def get_none_def dict_get_def subscript_def table_get_def
        map_of_dict_set dict_set_nonempty)
  have e1: "generate_rrule (PDict [(''frequency'', PStr ''Weekly''),
                               (''end_type'', PStr ''After X occurrences''),
                               (''count'', PInt 5)]) = Inr (Some ''FREQ=WEEKLY;COUNT=5'')"
    by code_simp
  have e2: "generate_rrule (PDict [(''frequency'', PStr ''Monthly''),
                               (''end_type'', PStr ''Never'')]) = Inr (Some ''FREQ=MONTHLY'')"
    by code_simp
  have e3: "generate_rrule (PDict [(''frequency'', PStr ''Daily''),
                               (''end_type'', PStr ''Until date''),
                               (''end_date'', PStr ''2024-12-31'')])
        = Inr (Some ''FREQ=DAILY;UNTIL=20241231T235959Z'')"
    by code_simp
  from n1 n2 n3 rrule_core [OF fm assms(2)] e1 e2 e3 show ?thesis by (intro conjI)
qed

theorem generate_rrule_spec_witness:
  "(''Yearly'', ''YEARLY'') \<in> set [(''Daily'', ''DAILY''), (''Weekly'', ''WEEKLY''),
                          (''Monthly'', ''MONTHLY''), (''Yearly'', ''YEARLY'')]
   \<and> map_of [(''frequency'', PStr ''Yearly''), (''end_type'', PStr ''After X occurrences''),
              (''count'', PInt 3)] ''frequency'' = Some (PStr ''Yearly'')
   \<and> generate_rrule (PDict [(''frequency'', PStr ''Yearly''),
                             (''end_type'', PStr ''After X occurrences''), (''count'', PInt 3)])
       = Inr (Some ''FREQ=YEARLY;COUNT=3'')"
proof -
  have h1: "(''Yearly'', ''YEARLY'') \<in> set [(''Daily'', ''DAILY''), (''Weekly'', ''WEEKLY''),
                          (''Monthly'', ''MONTHLY''), (''Yearly'', ''YEARLY'')]" by simp
  have h2: "map_of [(''frequency'', PStr ''Yearly''), (''end_type'', PStr ''After X occurrences''),
              (''count'', PInt 3)] ''frequency'' = Some (PStr ''Yearly'')" by simp
  have s: "py_str (PInt 3) = ''3''" by code_simp
  from generate_rrule_spec [OF h1 h2] h1 h2 s show ?thesis
    by (simp add: dict_get_def get_none_def)
qed

section \<open>Integers as text\<close>

lemma digit_chars: "map digit_char [0, 1, 2, 3, 4, 5, 6, 7, 8, 9] = ''0123456789''"
  by code_simp

lemma digit_char_isdigit:
  assumes "n < 10"
  shows "isdigit (digit_char n)"
proof -
  have "digit_char n = map digit_char [0, 1, 2, 3, 4, 5, 6, 7, 8, 9] ! n"
  proof -
    have "[0, 1, 2, 3, 4, 5, 6, 7, 8, 9] ! n = n"
      using assms by (auto simp: less_Suc_eq numeral_eq_Suc nth_Cons')
    moreover have "n < length [0, 1, 2, 3, 4, 5, 6, 7, 8, 9 :: nat]" using assms by simp
    ultimately show ?thesis by (metis nth_map)
  qed
  also have "\<dots> = ''0123456789'' ! n" by (simp only: digit_chars)
  also have "\<dots> \<in> set ''0123456789''" using assms by (intro nth_mem) simp
  finally show ?thesis by (simp only: isdigit_def)
qed

lemma digit_val_digit_char: "n < 10 \<Longrightarrow> digit_val (digit_char n) = n"
  by (simp add: digit_val_def digit_char_def)

lemma str_nat_digits: "list_all isdigit (str_nat n)"
proof (induction n rule: str_nat.induct)
  case (1 n)
  show ?case
  proof (cases "n < 10")
    case True
    then show ?thesis by (simp add: str_nat.simps [of n] digit_char_isdigit)
  next
    case False
    with 1 show ?thesis by (simp add: str_nat.simps [of n] digit_char_isdigit)
  qed
qed

lemma str_nat_nonempty: "str_nat n \<noteq> []"
  by (subst str_nat.simps) simp

lemma int_digits_snoc:
  "list_all isdigit xs \<Longrightarrow> isdigit c \<Longrightarrow>
   int_digits acc (xs @ [c]) = map_option (\<lambda>v. 10 * v + digit_val c) (int_digits acc xs)"
proof (induction acc xs rule: int_digits.induct)
  case (1 acc)
  then show ?case by simp
next
  case (2 acc d)
  then show ?case by simp
next
  case (3 acc d e ds)
  then show ?case by simp
qed

lemma int_digits_total: "list_all isdigit xs \<Longrightarrow> int_digits acc xs \<noteq> None"
  by (induction acc xs rule: int_digits.induct) auto

lemma nat_literal_snoc:
  assumes "xs \<noteq> []" "list_all isdigit xs" "isdigit c"
  shows "nat_literal (xs @ [c]) = map_option (\<lambda>v. 10 * v + digit_val c) (nat_literal xs)"
proof -
  from assms(1) obtain d ds where xs: "xs = d # ds" by (cases xs) auto
  with assms show ?thesis by (simp add: int_digits_snoc)
qed

lemma nat_literal_str_nat: "nat_literal (str_nat n) = Some n"
proof (induction n rule: str_nat.induct)
  case (1 n)
  show ?case
  proof (cases "n < 10")
    case True
    then show ?thesis
      by (simp add: str_nat.simps [of n] digit_char_isdigit digit_val_digit_char)
  next
    case False
    then have ih: "nat_literal (str_nat (n div 10)) = Some (n div 10)" using 1 by simp
    have m: "n mod 10 < 10" by simp
    from False have "str_nat n = str_nat (n div 10) @ [digit_char (n mod 10)]"
      by (simp add: str_nat.simps [of n])
    then show ?thesis
      using ih nat_literal_snoc [OF str_nat_nonempty str_nat_digits digit_char_isdigit [OF m]]
      by (simp add: digit_val_digit_char)
  qed
qed

lemma isdigit_not_int_space: "isdigit c \<Longrightarrow> \<not> int_space c"
  by (auto simp: isdigit_def int_space_def)

lemma isdigit_not_isspace: "isdigit c \<Longrightarrow> \<not> isspace c"
  by (auto simp: isdigit_def isspace_def)

lemma dropWhile_keep: "s \<noteq> [] \<Longrightarrow> \<not> P (hd s) \<Longrightarrow> dropWhile P s = s"
  by (cases s) auto

lemma trim_keep:
  assumes "s \<noteq> []" "\<not> P (hd s)" "\<not> P (last s)"
  shows "rev (dropWhile P (rev (dropWhile P s))) = s"
proof -
  have "dropWhile P s = s" using assms(1,2) by (rule dropWhile_keep)
  moreover have "dropWhile P (rev s) = rev s"
    using assms(1,3) by (intro dropWhile_keep) (simp_all add: hd_rev)
  ultimately show ?thesis by simp
qed

lemma str_nat_ends: "isdigit (hd (str_nat n))" "isdigit (last (str_nat n))"
  using str_nat_digits [of n] str_nat_nonempty [of n]
  by (auto simp: list_all_iff)

lemma py_int_str_int: "py_int (str_int i) = Some i"
proof (cases "i < 0")
  case True
  have l: "\<not> int_space (last (CHR ''-'' # str_nat (nat (- i))))"
    using str_nat_ends(2) [of "nat (- i)"] str_nat_nonempty [of "nat (- i)"]
    by (simp add: isdigit_not_int_space)
  have h: "\<not> int_space (hd (CHR ''-'' # str_nat (nat (- i))))" by (simp add: int_space_def)
  have "rev (dropWhile int_space (rev (dropWhile int_space (CHR ''-'' # str_nat (nat (- i))))))
        = CHR ''-'' # str_nat (nat (- i))"
    using h l by (intro trim_keep) simp_all
  with True show ?thesis
    unfolding py_int_def str_int_def by (simp add: nat_literal_str_nat)
next
  case False
  obtain c cs where cs: "str_nat (nat i) = c # cs" using str_nat_nonempty [of "nat i"]
    by (cases "str_nat (nat i)") auto
  have d: "isdigit c" using str_nat_ends(1) [of "nat i"] cs by simp
  then have nm: "c \<noteq> CHR ''-''" "c \<noteq> CHR ''+''" by (auto simp: isdigit_def)
  have "rev (dropWhile int_space (rev (dropWhile int_space (str_nat (nat i))))) = str_nat (nat i)"
    using str_nat_ends [of "nat i"] str_nat_nonempty [of "nat i"]
    by (intro trim_keep) (simp_all add: isdigit_not_int_space)
  with False cs nm nat_literal_str_nat [of "nat i"] show ?thesis
    unfolding py_int_def str_int_def by simp
qed

section \<open>The round trip through the writer and the parser\<close>

lemma universal_newlines_id: "CHR 0x0D \<notin> set s \<Longrightarrow> universal_newlines s = s"
  by (induction s rule: universal_newlines.induct) auto

lemma join_avoids:
  "c \<notin> set sep \<Longrightarrow> (\<forall>l \<in> set ls. c \<notin> set l) \<Longrightarrow> c \<notin> set (join sep ls)"
  by (induction sep ls rule: join.induct) auto

lemma split_join:
  "ls \<noteq> [] \<Longrightarrow> (\<forall>l \<in> set ls. c \<notin> set l) \<Longrightarrow> split [c] (join [c] ls) = ls"
proof (induction "[c]" ls rule: join.induct)
  case 1
  then show ?case by simp
next
  case (2 x)
  then show ?case by (simp add: split_char_none)
next
  case (3 x y ys)
  then show ?case by (simp add: split_char_cons)
qed

lemma rstrip_keep: "s \<noteq> [] \<Longrightarrow> \<not> isspace (last s) \<Longrightarrow> rstrip s = s"
  by (simp add: rstrip_def dropWhile_keep hd_rev)

lemma rstrip_append: "a \<noteq> [] \<Longrightarrow> \<not> isspace (last a) \<Longrightarrow> rstrip (a @ b) = a @ rstrip b"
  by (simp add: rstrip_def dropWhile_append dropWhile_keep hd_rev)

lemma strip_prefixed:
  assumes "a \<noteq> []" "\<not> isspace (hd a)" "\<not> isspace (last a)"
  shows "strip (a @ b) = a @ rstrip b"
proof -
  have "lstrip (a @ b) = a @ b"
    using assms(1,2) by (simp add: lstrip_def dropWhile_keep)
  then show ?thesis using assms(1,3) by (simp add: strip_def rstrip_append)
qed

lemma rstrip_subset: "set (rstrip s) \<subseteq> set s"
  unfolding rstrip_def using set_dropWhileD by fastforce

text \<open>A property line inside a block.\<close>

lemma parse_property_line:
  assumes "in_item st"
    and k: "k \<noteq> []" "\<forall>c \<in> set k. \<not> isspace c \<and> c \<noteq> CHR '':'' \<and> c \<noteq> CHR '';''"
    and nk: "k \<noteq> ''BEGIN''" "k \<noteq> ''END''"
  shows "parse_line st (k @ '':'' @ v)
         = Inr (st\<lparr>current_item := dict_set (current_item st) k (rstrip v)\<rparr>)"
proof -
  let ?line = "k @ CHR '':'' # rstrip v"
  have hk: "\<not> isspace (hd k)" using k by (cases k) auto
  have "strip ((k @ '':'') @ v) = (k @ '':'') @ rstrip v"
    using k hk by (intro strip_prefixed) (auto simp: isspace_def)
  then have s: "strip (k @ '':'' @ v) = ?line" by simp
  have ck: "CHR '':'' \<notin> set k" and sk: "CHR '';'' \<notin> set k" using k by auto
  have nm: "?line \<noteq> ''BEGIN:VTODO''" "?line \<noteq> ''BEGIN:VEVENT''"
    "?line \<noteq> ''END:VTODO''" "?line \<noteq> ''END:VEVENT''"
  proof -
    have u: "k' = k" if "k' @ CHR '':'' # v' = ?line" "CHR '':'' \<notin> set k'" "CHR '':'' \<notin> set v'"
      for k' v'
      using first_occurrence_unique [OF that(2,3) that(1)] by simp
    show "?line \<noteq> ''BEGIN:VTODO''"
      using u [of "''BEGIN''" "''VTODO''"] nk by force
    show "?line \<noteq> ''BEGIN:VEVENT''"
      using u [of "''BEGIN''" "''VEVENT''"] nk by force
    show "?line \<noteq> ''END:VTODO''"
      using u [of "''END''" "''VTODO''"] nk by force
    show "?line \<noteq> ''END:VEVENT''"
      using u [of "''END''" "''VEVENT''"] nk by force
  qed
  have c: "contains '':'' ?line" by (simp add: contains_char)
  obtain a k' where ak: "k = a # k'" using k(1) by (cases k) auto
  with hk have "a \<noteq> CHR 0x20" "a \<noteq> CHR 0x09" by (auto simp: isspace_def)
  with ak have sw: "\<not> startswith ?line '' ''" "\<not> startswith ?line [CHR 0x09]"
    by simp_all
  have s1: "split1 '':'' ?line = [k, rstrip v]"
    using ck by (simp add: split1_def find_sep_char)
  have cs: "\<not> contains '';'' k" using sk by (simp add: contains_char)
  show ?thesis
    unfolding parse_line_def s Let_def
    using assms(1) nm c sw s1 cs by simp
qed

lemma strip_keep:
  assumes "a \<noteq> []" "\<not> isspace (hd a)" "\<not> isspace (last a)"
  shows "strip a = a"
  using strip_prefixed [OF assms, of "[]"] by (simp add: rstrip_def)

lemma parse_outside:
  "\<not> in_item st \<Longrightarrow>
   strip raw \<notin> set [''BEGIN:VTODO'', ''BEGIN:VEVENT'', ''END:VTODO'', ''END:VEVENT''] \<Longrightarrow>
   parse_line st raw = Inr st"
  by (simp add: parse_line_def Let_def)

lemma parse_begin_vtodo:
  "parse_line st ''BEGIN:VTODO''
   = Inr (st\<lparr>in_item := True, item_type := Some ''VTODO'', current_item := [(''type'', ''VTODO'')]\<rparr>)"
  by (simp add: parse_line_def Let_def strip_keep isspace_def)

lemma parse_end_vtodo:
  "parse_line st ''END:VTODO''
   = Inr (st\<lparr>items := (if current_item st \<noteq> [] then items st @ [current_item st] else items st),
              in_item := False, item_type := None\<rparr>)"
  by (simp add: parse_line_def Let_def strip_keep isspace_def)

lemma split_due: "split '';'' ''DUE;VALUE=DATE'' = [''DUE'', ''VALUE=DATE'']"
  by code_simp

lemma parse_due_line:
  assumes "in_item st"
  shows "parse_line st ''DUE;VALUE=DATE:20240301''
         = Inr (st\<lparr>current_item := dict_set (current_item st) ''DUE'' ''20240301''\<rparr>)"
proof -
  have s: "strip ''DUE;VALUE=DATE:20240301'' = ''DUE;VALUE=DATE:20240301''"
    by (simp add: strip_keep isspace_def)
  have c: "contains '':'' ''DUE;VALUE=DATE:20240301''" by (simp add: contains_char)
  have s1: "split1 '':'' ''DUE;VALUE=DATE:20240301'' = [''DUE;VALUE=DATE'', ''20240301'']"
    using find_sep_char [of "CHR '':''" "''DUE;VALUE=DATE''" "''20240301''"]
    by (simp add: split1_def)
  have c2: "contains '';'' ''DUE;VALUE=DATE''" by (simp add: contains_char)
  show ?thesis
    unfolding parse_line_def s Let_def
    using assms c s1 c2 by (simp add: split_due)
qed

lemma status_token_clean:
  "CHR 0x0A \<notin> set (get_ics_status s)" "CHR 0x0D \<notin> set (get_ics_status s)"
  by (auto simp: get_ics_status_def dict_get_def)

lemma str_int_clean: "CHR 0x0A \<notin> set (str_int i)" "CHR 0x0D \<notin> set (str_int i)"
proof -
  have "\<not> isdigit CHR 0x0A" "\<not> isdigit CHR 0x0D" by (simp_all add: isdigit_def)
  moreover have "c \<in> set (str_nat n) \<Longrightarrow> isdigit c" for c n
    using str_nat_digits [of n] by (simp add: list_all_iff)
  ultimately have "CHR 0x0A \<notin> set (str_nat n)" "CHR 0x0D \<notin> set (str_nat n)" for n
    by blast+
  then show "CHR 0x0A \<notin> set (str_int i)" "CHR 0x0D \<notin> set (str_int i)"
    by (simp_all add: str_int_def)
qed

lemma rstrip_str_int: "rstrip (str_int i) = str_int i"
proof -
  have "str_int i \<noteq> []" by (simp add: str_int_def str_nat_nonempty)
  moreover have "\<not> isspace (last (str_int i))"
    using str_nat_ends(2) str_nat_nonempty
    by (simp add: str_int_def isdigit_not_isspace)
  ultimately show ?thesis by (rule rstrip_keep)
qed

lemma found_value:
  "map_of d k = Some v \<Longrightarrow> subscript d k = Inr v"
  "map_of d k = Some v \<Longrightarrow> get_none d k = v"
  by (simp_all add: subscript_def get_none_def dict_get_def)

lemma replace_due: "replace ''-'' [] ''2024-03-01'' = ''20240301''"
  by code_simp

lemma written_lines:
  assumes "map_of task ''subject'' = Some (PStr ''Pay invoice'')"
    and "\<not> truthy (dict_get task ''project'' (PStr []))"
    and "map_of task ''category'' = Some (PStr ''Business'')"
    and "map_of task ''due_date'' = Some (PStr ''2024-03-01'')"
    and "map_of task ''priority'' = Some (PStr ''High'')"
    and "map_of task ''status'' = Some (PStr status)"
    and "map_of task ''progress'' = Some (PInt progress)"
    and "\<not> truthy (get_none task ''start_date'')"
    and "\<not> truthy (get_none task ''reminder'')"
    and "\<not> truthy (get_none task ''location'')"
    and "\<not> truthy (get_none task ''description'')"
  shows "task_lines u s task =
     Inr [''BEGIN:VTODO'', ''UID:'' @ u, ''SUMMARY:Pay invoice'', ''PRIORITY:1'',
          ''STATUS:'' @ get_ics_status status, ''PERCENT-COMPLETE:'' @ str_int progress,
          ''DTSTAMP:'' @ s, ''DUE;VALUE=DATE:20240301'', ''CATEGORIES:Business'',
          ''END:VTODO'']"
  unfolding task_lines_def
  using assms(2,8-11)
  by (simp add: found_value [OF assms(1)] found_value [OF assms(3)] found_value [OF assms(4)]
      found_value [OF assms(5)] found_value [OF assms(6)] found_value [OF assms(7)]
      and_then_def Let_def format_task_name_with_project_def get_ics_priority_val_def
      get_ics_status_val_def get_ics_priority_def dict_get_def date_line_def val_replace_def
      replace_due text_line_def description_line_def py_str_def)

lemma parsed_block:
  "parse_lines \<lparr>items = [], current_item = [], in_item = False, item_type = None\<rparr>
      [''BEGIN:VCALENDAR'', ''VERSION:2.0'', ''PRODID:-//Exchange Task Creator//Enhanced//EN'',
       ''BEGIN:VTODO'', ''UID:'' @ u, ''SUMMARY:Pay invoice'', ''PRIORITY:1'',
       ''STATUS:'' @ tok, ''PERCENT-COMPLETE:'' @ str_int progress,
       ''DTSTAMP:'' @ s, ''DUE;VALUE=DATE:20240301'', ''CATEGORIES:Business'',
       ''END:VTODO'', ''END:VCALENDAR'']
     = Inr \<lparr>items = [[(''type'', ''VTODO''), (''UID'', rstrip u), (''SUMMARY'', ''Pay invoice''),
                      (''PRIORITY'', ''1''), (''STATUS'', rstrip tok),
                      (''PERCENT-COMPLETE'', str_int progress), (''DTSTAMP'', rstrip s),
                      (''DUE'', ''20240301''), (''CATEGORIES'', ''Business'')]],
            current_item = [(''type'', ''VTODO''), (''UID'', rstrip u), (''SUMMARY'', ''Pay invoice''),
                      (''PRIORITY'', ''1''), (''STATUS'', rstrip tok),
                      (''PERCENT-COMPLETE'', str_int progress), (''DTSTAMP'', rstrip s),
                      (''DUE'', ''20240301''), (''CATEGORIES'', ''Business'')],
            in_item = False, item_type = None\<rparr>"
proof -
  have o1: "parse_line st ''BEGIN:VCALENDAR'' = Inr st"
    and o2: "parse_line st ''VERSION:2.0'' = Inr st"
    and o3: "parse_line st ''PRODID:-//Exchange Task Creator//Enhanced//EN'' = Inr st"
    and o4: "parse_line st ''END:VCALENDAR'' = Inr st"
    if "\<not> in_item st" for st
    using that by (simp_all add: parse_outside strip_keep isspace_def)
  have p: "parse_line st (''UID:'' @ u)
             = Inr (st\<lparr>current_item := dict_set (current_item st) ''UID'' (rstrip u)\<rparr>)"
    "parse_line st (''SUMMARY:'' @ ''Pay invoice'')
             = Inr (st\<lparr>current_item := dict_set (current_item st) ''SUMMARY'' (rstrip ''Pay invoice'')\<rparr>)"
    "parse_line st (''PRIORITY:'' @ ''1'')
             = Inr (st\<lparr>current_item := dict_set (current_item st) ''PRIORITY'' (rstrip ''1'')\<rparr>)"
    "parse_line st (''STATUS:'' @ tok)
             = Inr (st\<lparr>current_item := dict_set (current_item st) ''STATUS'' (rstrip tok)\<rparr>)"
    "parse_line st (''PERCENT-COMPLETE:'' @ str_int progress)
             = Inr (st\<lparr>current_item := dict_set (current_item st) ''PERCENT-COMPLETE''
                      (rstrip (str_int progress))\<rparr>)"
    "parse_line st (''DTSTAMP:'' @ s)
             = Inr (st\<lparr>current_item := dict_set (current_item st) ''DTSTAMP'' (rstrip s)\<rparr>)"
    "parse_line st (''CATEGORIES:'' @ ''Business'')
             = Inr (st\<lparr>current_item := dict_set (current_item st) ''CATEGORIES'' (rstrip ''Business'')\<rparr>)"
    if "in_item st" for st
    using parse_property_line [OF that, of "''UID''" u]
      parse_property_line [OF that, of "''SUMMARY''" "''Pay invoice''"]
      parse_property_line [OF that, of "''PRIORITY''" "''1''"]
      parse_property_line [OF that, of "''STATUS''" tok]
      parse_property_line [OF that, of "''PERCENT-COMPLETE''" "str_int progress"]
      parse_property_line [OF that, of "''DTSTAMP''" s]
      parse_property_line [OF that, of "''CATEGORIES''" "''Business''"]
    by (simp_all add: isspace_def)
  have r: "rstrip ''Pay invoice'' = ''Pay invoice''" "rstrip ''1'' = ''1''"
    "rstrip ''Business'' = ''Business''"
    by (simp_all add: rstrip_keep isspace_def)
  show ?thesis
    using p [simplified] o1 o2 o3 o4
    by (simp add: parse_begin_vtodo parse_end_vtodo parse_due_line r rstrip_str_int)
qed

lemma imported_task:
  "task_of_item n nw [(''type'', ''VTODO''), (''UID'', u), (''SUMMARY'', ''Pay invoice''),
                      (''PRIORITY'', ''1''), (''STATUS'', tok),
                      (''PERCENT-COMPLETE'', str_int progress), (''DTSTAMP'', s),
                      (''DUE'', ''20240301''), (''CATEGORIES'', ''Business'')]
   = Inr [(''id'', PInt (int n + 1)), (''subject'', PStr ''Pay invoice''),
          (''priority'', PStr ''High''), (''status'', PStr (convert_ics_status tok)),
          (''progress'', PInt progress), (''start_date'', PStr []),
          (''due_date'', PStr ''2024-03-01''), (''due_date_type'', PStr ''Custom''),
          (''reminder'', PBool False), (''reminder_date'', PStr []),
          (''reminder_time'', PStr []), (''repeat_settings'', PNone),
          (''category'', PStr ''Business''), (''owner'', PStr []),
          (''location'', PStr []), (''description'', PStr []),
          (''created_date'', PStr nw)]"
proof -
  have p: "convert_ics_priority ''1'' = ''High''" by code_simp
  have d: "convert_ics_date ''20240301'' = ''2024-03-01''" by code_simp
  have e: "convert_ics_date [] = []" by (simp add: convert_ics_date_def)
  show ?thesis
    by (simp add: task_of_item_def dict_get_def py_int_str_int replace_empty p d e)
qed

text \<open>
  C4. A task with subject \<open>Pay invoice\<close>, no project, category \<open>Business\<close>, due date
  \<open>2024-03-01\<close> and priority \<open>High\<close>, of any status and progress, without start date,
  reminder, location or description, is exported by \<open>generate_ics_file\<close> and the file
  read back by \<open>import_from_ics\<close>: the import succeeds and appends one task whose
  subject is \<open>Pay invoice\<close>, whose priority is \<open>High\<close> and whose due date is
  \<open>2024-03-01\<close>. The identifier and the time stamp written to the file are those of the
  environment; they hold no line break.
\<close>

theorem export_import_round_trip:
  assumes "map_of task ''subject'' = Some (PStr ''Pay invoice'')"
    and "\<not> truthy (dict_get task ''project'' (PStr []))"
    and "map_of task ''category'' = Some (PStr ''Business'')"
    and "map_of task ''due_date'' = Some (PStr ''2024-03-01'')"
    and "map_of task ''priority'' = Some (PStr ''High'')"
    and "map_of task ''status'' = Some (PStr status)"
    and "map_of task ''progress'' = Some (PInt progress)"
    and "\<not> truthy (get_none task ''start_date'')"
    and "\<not> truthy (get_none task ''reminder'')"
    and "\<not> truthy (get_none task ''location'')"
    and "\<not> truthy (get_none task ''description'')"
    and "CHR 0x0A \<notin> set (uid 0)" and "CHR 0x0D \<notin> set (uid 0)"
    and "CHR 0x0A \<notin> set (stamp 0)" and "CHR 0x0D \<notin> set (stamp 0)"
  shows "\<exists>st1 st2 t.
      generate_ics_file uid stamp [task] filename st = Inr st1
    \<and> import_from_ics now filename st1 = (st2, True)
    \<and> tasks st2 = tasks st @ [length (heap st)]
    \<and> heap st2 = heap st @ [t]
    \<and> map_of t ''subject'' = Some (PStr ''Pay invoice'')
    \<and> map_of t ''priority'' = Some (PStr ''High'')
    \<and> map_of t ''due_date'' = Some (PStr ''2024-03-01'')"
proof -
  define L where "L = [''BEGIN:VCALENDAR'', ''VERSION:2.0'',
       ''PRODID:-//Exchange Task Creator//Enhanced//EN'',
       ''BEGIN:VTODO'', ''UID:'' @ uid 0, ''SUMMARY:Pay invoice'', ''PRIORITY:1'',
       ''STATUS:'' @ get_ics_status status, ''PERCENT-COMPLETE:'' @ str_int progress,
       ''DTSTAMP:'' @ stamp 0, ''DUE;VALUE=DATE:20240301'', ''CATEGORIES:Business'',
       ''END:VTODO'', ''END:VCALENDAR'']"
  define st1 where "st1 = st\<lparr>files := dict_set (files st) filename (join [CHR 0x0A] L)\<rparr>"
  define t where "t = [(''id'', PInt (int (length (tasks st)) + 1)), (''subject'', PStr ''Pay invoice''),
          (''priority'', PStr ''High''),
          (''status'', PStr (convert_ics_status (rstrip (get_ics_status status)))),
          (''progress'', PInt progress), (''start_date'', PStr []),
          (''due_date'', PStr ''2024-03-01''), (''due_date_type'', PStr ''Custom''),
          (''reminder'', PBool False), (''reminder_date'', PStr []),
          (''reminder_time'', PStr []), (''repeat_settings'', PNone),
          (''category'', PStr ''Business''), (''owner'', PStr []),
          (''location'', PStr []), (''description'', PStr []),
          (''created_date'', PStr (now 0))]"
  have g: "generate_ics_file uid stamp [task] filename st = Inr st1"
    unfolding generate_ics_file_def st1_def L_def
    by (simp add: written_lines [OF assms(1-11)] and_then_def del: join.simps)
  have lf: "\<forall>l \<in> set L. CHR 0x0A \<notin> set l"
    unfolding L_def using assms(12,14) by (simp add: status_token_clean str_int_clean)
  have cr: "\<forall>l \<in> set L. CHR 0x0D \<notin> set l"
    unfolding L_def using assms(13,15) by (simp add: status_token_clean str_int_clean)
  have ne: "L \<noteq> []" by (simp add: L_def)
  have u: "universal_newlines (join [CHR 0x0A] L) = join [CHR 0x0A] L"
    using cr by (intro universal_newlines_id join_avoids) simp_all
  have sp: "split [CHR 0x0A] (join [CHR 0x0A] L) = L"
    using ne lf by (rule split_join)
  have pa: "parse_ics (join [CHR 0x0A] L)
     = Inr [[(''type'', ''VTODO''), (''UID'', rstrip (uid 0)), (''SUMMARY'', ''Pay invoice''),
             (''PRIORITY'', ''1''), (''STATUS'', rstrip (get_ics_status status)),
             (''PERCENT-COMPLETE'', str_int progress), (''DTSTAMP'', rstrip (stamp 0)),
             (''DUE'', ''20240301''), (''CATEGORIES'', ''Business'')]]"
    unfolding parse_ics_def sp unfolding L_def by (simp only: parsed_block) simp
  have f: "map_of (files st1) filename = Some (join [CHR 0x0A] L)"
    by (simp add: st1_def map_of_dict_set)
  have ts: "tasks st1 = tasks st" "heap st1 = heap st" by (simp_all add: st1_def)
  have i: "import_from_ics now filename st1 = (append_task t st1, True)"
    unfolding import_from_ics_def f
    by (simp add: u pa imported_task ts t_def)
  have m: "map_of t ''subject'' = Some (PStr ''Pay invoice'')"
    "map_of t ''priority'' = Some (PStr ''High'')"
    "map_of t ''due_date'' = Some (PStr ''2024-03-01'')"
    by (simp_all add: t_def)
  have a: "tasks (append_task t st1) = tasks st @ [length (heap st)]"
    "heap (append_task t st1) = heap st @ [t]"
    by (simp_all add: append_task_def ts)
  from g i a m show ?thesis by blast
qed

theorem export_import_round_trip_witness:
  "map_of pay_invoice ''subject'' = Some (PStr ''Pay invoice'')
   \<and> \<not> truthy (dict_get pay_invoice ''project'' (PStr []))
   \<and> map_of pay_invoice ''category'' = Some (PStr ''Business'')
   \<and> map_of pay_invoice ''due_date'' = Some (PStr ''2024-03-01'')
   \<and> map_of pay_invoice ''priority'' = Some (PStr ''High'')
   \<and> map_of pay_invoice ''status'' = Some (PStr ''In Progress'')
   \<and> map_of pay_invoice ''progress'' = Some (PInt 40)
   \<and> \<not> truthy (get_none pay_invoice ''start_date'')
   \<and> \<not> truthy (get_none pay_invoice ''reminder'')
   \<and> \<not> truthy (get_none pay_invoice ''location'')
   \<and> \<not> truthy (get_none pay_invoice ''description'')
   \<and> CHR 0x0A \<notin> set ''123e4567-e89b-42d3-a456-426614174000''
   \<and> CHR 0x0D \<notin> set ''123e4567-e89b-42d3-a456-426614174000''
   \<and> CHR 0x0A \<notin> set ''20240201T100000Z''
   \<and> CHR 0x0D \<notin> set ''20240201T100000Z''
   \<and> (\<exists>st1 st2 t.
        generate_ics_file (\<lambda>k. ''123e4567-e89b-42d3-a456-426614174000'')
            (\<lambda>k. ''20240201T100000Z'') [pay_invoice] ''export.ics''
            (initial_app ''Feb 01, 2024'' [] []) = Inr st1
      \<and> import_from_ics (\<lambda>k. ''2024-02-01 10:00:05'') ''export.ics'' st1 = (st2, True)
      \<and> tasks st2 = tasks (initial_app ''Feb 01, 2024'' [] [])
                       @ [length (heap (initial_app ''Feb 01, 2024'' [] []))]
      \<and> heap st2 = heap (initial_app ''Feb 01, 2024'' [] []) @ [t]
      \<and> map_of t ''subject'' = Some (PStr ''Pay invoice'')
      \<and> map_of t ''priority'' = Some (PStr ''High'')
      \<and> map_of t ''due_date'' = Some (PStr ''2024-03-01''))"
proof -
  have h1: "map_of pay_invoice ''subject'' = Some (PStr ''Pay invoice'')" by simp
  have h2: "\<not> truthy (dict_get pay_invoice ''project'' (PStr []))" by (simp add: dict_get_def)
  have h3: "map_of pay_invoice ''category'' = Some (PStr ''Business'')" by simp
  have h4: "map_of pay_invoice ''due_date'' = Some (PStr ''2024-03-01'')" by simp
  have h5: "map_of pay_invoice ''priority'' = Some (PStr ''High'')" by simp
  have h6: "map_of pay_invoice ''status'' = Some (PStr ''In Progress'')" by simp
  have h7: "map_of pay_invoice ''progress'' = Some (PInt 40)" by simp
  have h8: "\<not> truthy (get_none pay_invoice ''start_date'')"
    by (simp add: get_none_def dict_get_def)
  have h9: "\<not> truthy (get_none pay_invoice ''reminder'')"
    by (simp add: get_none_def dict_get_def)
  have h10: "\<not> truthy (get_none pay_invoice ''location'')"
    by (simp add: get_none_def dict_get_def)
  have h11: "\<not> truthy (get_none pay_invoice ''description'')"
    by (simp add: get_none_def dict_get_def)
  have h12: "CHR 0x0A \<notin> set ((\<lambda>k::nat. ''123e4567-e89b-42d3-a456-426614174000'') 0)"
    and h13: "CHR 0x0D \<notin> set ((\<lambda>k::nat. ''123e4567-e89b-42d3-a456-426614174000'') 0)"
    and h14: "CHR 0x0A \<notin> set ((\<lambda>k::nat. ''20240201T100000Z'') 0)"
    and h15: "CHR 0x0D \<notin> set ((\<lambda>k::nat. ''20240201T100000Z'') 0)"
    by simp_all
  note r = export_import_round_trip [OF h1 h2 h3 h4 h5 h6 h7 h8 h9 h10 h11 h12 h13 h14 h15,
      of "''export.ics''" "initial_app ''Feb 01, 2024'' [] []" "\<lambda>k. ''2024-02-01 10:00:05''"]
  have c: "CHR 0x0A \<notin> set ''123e4567-e89b-42d3-a456-426614174000''"
      "CHR 0x0D \<notin> set ''123e4567-e89b-42d3-a456-426614174000''"
      "CHR 0x0A \<notin> set ''20240201T100000Z''"
      "CHR 0x0D \<notin> set ''20240201T100000Z''"
    by simp_all
  show ?thesis
    by (intro conjI h1 h2 h3 h4 h5 h6 h7 h8 h9 h10 h11 c r)
qed

section \<open>Properties of creating and updating a task\<close>

lemma map_of_dict_update:
  "k \<notin> fst ` set entries \<Longrightarrow> map_of (dict_update d entries) k = map_of d k"
  unfolding dict_update_def
  by (induction entries arbitrary: d) (auto simp: map_of_dict_set)

lemma form_entries_keys:
  "form_entries st project category location = Inr entries \<Longrightarrow>
   map fst entries = [''subject'', ''project'', ''priority'', ''status'', ''progress'',
     ''start_date'', ''due_date'', ''due_date_type'', ''reminder'', ''reminder_date'',
     ''reminder_time'', ''repeat_settings'', ''category'', ''owner'', ''location'',
     ''description'']"
  by (auto simp: form_entries_def Let_def split: sum.splits)

lemma remember_frame:
  "heap (remember_category c st) = heap st" "tasks (remember_category c st) = tasks st"
  "editing_task (remember_category c st) = editing_task st"
  "form (remember_category c st) = form st"
  "start_options (remember_category c st) = start_options st"
  "due_options (remember_category c st) = due_options st"
  "heap (remember_project p st) = heap st" "tasks (remember_project p st) = tasks st"
  "editing_task (remember_project p st) = editing_task st"
  "form (remember_project p st) = form st"
  "start_options (remember_project p st) = start_options st"
  "due_options (remember_project p st) = due_options st"
  "heap (remember_location l st) = heap st" "tasks (remember_location l st) = tasks st"
  "editing_task (remember_location l st) = editing_task st"
  "form (remember_location l st) = form st"
  "start_options (remember_location l st) = start_options st"
  "due_options (remember_location l st) = due_options st"
  by (simp_all add: remember_category_def remember_project_def remember_location_def
      save_categories_def save_projects_def save_locations_def)

lemma form_entries_frame:
  "form st' = form st \<Longrightarrow> start_options st' = start_options st \<Longrightarrow>
   due_options st' = due_options st \<Longrightarrow> form_entries st' p c l = form_entries st p c l"
  by (simp add: form_entries_def get_actual_start_date_def get_actual_due_date_def Let_def
      split: sum.split)

text \<open>
  C8. When the subject of the form is empty after trimming, or its category is empty
  after trimming or is the placeholder \<open>-- Select Category --\<close>, \<open>create_task\<close> and
  \<open>update_task\<close> return at once: the state they leave is the state they found with one
  error dialog added. The task list, the task dictionaries, the task being edited, the
  category, project and location lists and the four stores are the same.
\<close>

theorem validation_aborts_before_mutation:
  assumes "strip (subject_var (form st)) = []
           \<or> strip (category_var (form st)) = []
           \<or> strip (category_var (form st)) = ''-- Select Category --''"
  shows "\<exists>message.
           create_task now today st = (st\<lparr>dialogs := dialogs st @ [(''Error'', message)]\<rparr>, None)
         \<and> update_task today st = (st\<lparr>dialogs := dialogs st @ [(''Error'', message)]\<rparr>, None)"
proof (cases "strip (subject_var (form st)) = []")
  case True
  then show ?thesis
    by (intro exI [of _ "''Task name is required!''"])
      (simp add: create_task_def update_task_def showerror_def)
next
  case False
  with assms show ?thesis
    by (intro exI [of _ "''Please select a category for this task!''"])
      (auto simp: create_task_def update_task_def showerror_def Let_def)
qed

theorem validation_aborts_before_mutation_witness:
  "(strip (subject_var (form no_category_state)) = []
      \<or> strip (category_var (form no_category_state)) = []
      \<or> strip (category_var (form no_category_state)) = ''-- Select Category --'')
   \<and> (\<exists>message.
         create_task ''2024-01-15 10:00:00'' ''Jan 15, 2024'' no_category_state
           = (no_category_state\<lparr>dialogs := dialogs no_category_state @ [(''Error'', message)]\<rparr>,
              None)
       \<and> update_task ''Jan 15, 2024'' no_category_state
           = (no_category_state\<lparr>dialogs := dialogs no_category_state @ [(''Error'', message)]\<rparr>,
              None))"
proof -
  have c: "strip (category_var (form no_category_state)) = ''-- Select Category --''"
    by (simp add: initial_app_def cleared_form_def strip_keep isspace_def)
  then have h: "strip (subject_var (form no_category_state)) = []
      \<or> strip (category_var (form no_category_state)) = []
      \<or> strip (category_var (form no_category_state)) = ''-- Select Category --''"
    by (rule disjI2 [OF disjI2])
  show ?thesis
    by (rule conjI [OF h validation_aborts_before_mutation [OF h]])
qed

text \<open>
  C9. \<open>update_task\<close> on a task being edited, whatever the form holds: the entries \<open>id\<close>
  and \<open>created_date\<close> of the task are those it had. The dictionary is either untouched
  (validation failed, or reading the form raised) or it is the old one updated with the
  sixteen entries read from the form, \<open>subject\<close> to \<open>description\<close>. No other task
  dictionary and no entry of the task list changes.
\<close>

theorem update_task_keeps_id_and_created_date:
  assumes "editing_task st = Some a" and "a < length (heap st)"
    and "update_task today st = (st', r)"
  shows "map_of (heap st' ! a) ''id'' = map_of (heap st ! a) ''id''
    \<and> map_of (heap st' ! a) ''created_date'' = map_of (heap st ! a) ''created_date''
    \<and> (heap st' ! a = heap st ! a
        \<or> (\<exists>entries.
              form_entries st (strip (project_var (form st))) (strip (category_var (form st)))
                (strip (location_var (form st))) = Inr entries
              \<and> heap st' ! a = dict_update (heap st ! a) entries))
    \<and> length (heap st') = length (heap st)
    \<and> tasks st' = tasks st
    \<and> (\<forall>b. b \<noteq> a \<longrightarrow> heap st' ! b = heap st ! b)"
proof -
  let ?p = "strip (project_var (form st))" and ?c = "strip (category_var (form st))"
    and ?l = "strip (location_var (form st))"
  let ?st3 = "remember_location ?l (remember_project ?p (remember_category ?c st))"
  have fr: "heap ?st3 = heap st" "tasks ?st3 = tasks st" "editing_task ?st3 = Some a"
    using assms(1) by (simp_all add: remember_frame)
  have fe: "form_entries ?st3 ?p ?c ?l = form_entries st ?p ?c ?l"
    by (intro form_entries_frame) (simp_all add: remember_frame)
  consider (same) "heap st' = heap st" "tasks st' = tasks st"
    | (upd) entries where "form_entries st ?p ?c ?l = Inr entries"
        "heap st' = (heap st)[a := dict_update (heap st ! a) entries]" "tasks st' = tasks st"
  proof (cases "form_entries st ?p ?c ?l")
    case (Inl e)
    with assms(3) fr fe have "heap st' = heap st" "tasks st' = tasks st"
      by (auto simp: update_task_def showerror_def Let_def split: if_splits)
    then show ?thesis by (rule same)
  next
    case (Inr entries)
    with assms(3) fr fe have "(heap st' = heap st \<or>
        heap st' = (heap st)[a := dict_update (heap st ! a) entries]) \<and> tasks st' = tasks st"
      by (auto simp: update_task_def showerror_def showinfo_def auto_save_tasks_def
          exit_edit_mode_def Let_def split: if_splits)
    with Inr same upd show ?thesis by blast
  qed
  then show ?thesis
  proof cases
    case same
    then show ?thesis by simp
  next
    case upd
    from form_entries_keys [OF upd(1)]
    have "fst ` set entries = set [''subject'', ''project'', ''priority'', ''status'', ''progress'',
     ''start_date'', ''due_date'', ''due_date_type'', ''reminder'', ''reminder_date'',
     ''reminder_time'', ''repeat_settings'', ''category'', ''owner'', ''location'',
     ''description'']"
      by (metis set_map)
    then have k: "''id'' \<notin> fst ` set entries" "''created_date'' \<notin> fst ` set entries"
      by simp_all
    from upd assms(2) k show ?thesis
      by (auto simp: map_of_dict_update)
  qed
qed

theorem update_task_keeps_id_and_created_date_witness:
  "editing_task editing_state = Some 0
   \<and> 0 < length (heap editing_state)
   \<and> update_task ''Jan 15, 2024'' editing_state
       = (fst (update_task ''Jan 15, 2024'' editing_state),
          snd (update_task ''Jan 15, 2024'' editing_state))
   \<and> map_of (heap (fst (update_task ''Jan 15, 2024'' editing_state)) ! 0) ''id''
       = Some (PInt 1)
   \<and> map_of (heap (fst (update_task ''Jan 15, 2024'' editing_state)) ! 0) ''created_date''
       = Some (PStr ''2024-01-01 09:00:00'')
   \<and> map_of (heap (fst (update_task ''Jan 15, 2024'' editing_state)) ! 0) ''subject''
       = Some (PStr ''New name'')
   \<and> snd (update_task ''Jan 15, 2024'' editing_state) = None"
proof -
  have n: "map_of (heap (fst (update_task ''Jan 15, 2024'' editing_state)) ! 0) ''subject''
       = Some (PStr ''New name'')"
    "snd (update_task ''Jan 15, 2024'' editing_state) = None"
    by code_simp+
  have h1: "editing_task editing_state = Some 0" by (simp add: initial_app_def)
  have h2: "0 < length (heap editing_state)" by (simp add: initial_app_def)
  have h3: "update_task ''Jan 15, 2024'' editing_state
       = (fst (update_task ''Jan 15, 2024'' editing_state),
          snd (update_task ''Jan 15, 2024'' editing_state))"
    by simp
  have o: "map_of (heap editing_state ! 0) ''id'' = Some (PInt 1)"
    "map_of (heap editing_state ! 0) ''created_date'' = Some (PStr ''2024-01-01 09:00:00'')"
    by (simp_all add: initial_app_def)
  from update_task_keeps_id_and_created_date [OF h1 h2 h3] o h1 h2 h3 n
  show ?thesis by simp
qed

end
